theory Spec2Isabelle
  imports Main "HOL-Library.Word"
begin

section \<open>The status state machine of the MXJob controller\<close>

text \<open>
  A shallow embedding of \<^verbatim>\<open>pkg/controller.v1/mxnet/status.go\<close>. The Go code mutates the job
  through a pointer, reads the wall clock with \<^verbatim>\<open>metav1.Now()\<close> and enqueues delayed
  reconciliations on the controller's work queue. Here the job object, the work queue and
  the number of clock readings taken so far form an explicit \<open>World\<close> that every stateful
  function takes and returns; the clock itself is a parameter \<open>clk\<close>, the \<open>n\<close>-th reading of
  which is \<open>clk n\<close>. A function that can fail returns an \<open>error option\<close> next to the world it
  leaves behind: \<open>None\<close> is Go's nil, and a panic is the error \<open>NilPointerDereference\<close> with
  the world as it was when the panic occurred. Log output is not modelled, and the
  pointers \<^verbatim>\<open>mxjob\<close> and \<^verbatim>\<open>pod\<close> are taken to be non-nil.
\<close>

subsection \<open>Data model\<close>

type_synonym Time = nat

type_synonym Clock = "nat \<Rightarrow> Time"

text \<open>The three values of \<^verbatim>\<open>v1.ConditionStatus\<close> of the Kubernetes API.\<close>

datatype ConditionStatus = ConditionTrue | ConditionFalse | ConditionUnknown

text \<open>Pod phases of the Kubernetes API (\<^verbatim>\<open>v1.PodPhase\<close>).\<close>

datatype PodPhase = PodPending | PodRunning | PodSucceeded | PodFailed | PodUnknown

record Pod =
  Phase :: PodPhase

text \<open>
  Modelled from the spec: the declarations of package \<^verbatim>\<open>mxv1\<close> are not part of the file.
  The condition types are exactly Created, Running, Restarting, Succeeded and Failed; the
  replica types are Scheduler, Worker and Tuner, extensible to others
  (\<open>MXReplicaTypeOther\<close> with the name of the role). A condition has a type, a status, a
  reason, a message and two timestamps.
\<close>

datatype MXJobConditionType =
  MXJobCreated | MXJobRunning | MXJobRestarting | MXJobSucceeded | MXJobFailed

datatype MXReplicaType =
  MXReplicaTypeScheduler | MXReplicaTypeWorker | MXReplicaTypeTuner | MXReplicaTypeOther string

record MXJobCondition =
  Type :: MXJobConditionType
  Status :: ConditionStatus
  Reason :: string
  Message :: string
  LastUpdateTime :: Time
  LastTransitionTime :: Time

text \<open>The counters are \<^verbatim>\<open>int32\<close> in Go: \<^verbatim>\<open>++\<close> wraps around.\<close>

record MXReplicaStatus =
  Active :: "32 word"
  Succeeded :: "32 word"
  Failed :: "32 word"

text \<open>
  \<^verbatim>\<open>MXReplicaStatuses\<close> is a Go map from replica type to a pointer,
  \<^verbatim>\<open>map[MXReplicaType]*MXReplicaStatus\<close>. The map holds addresses; the structs they point to
  live in the heap of the \<open>World\<close> below, so that two entries may point to one struct. An
  entry that is missing or nil is \<open>None\<close>: reading a field through it panics.
\<close>

type_synonym addr = nat

record MXJobStatus =
  Conditions :: "MXJobCondition list"
  MXReplicaStatuses :: "MXReplicaType \<rightharpoonup> addr"
  StartTime :: "Time option"
  CompletionTime :: "Time option"

text \<open>
  Modelled from the spec: of the job specification the state machine reads the optional
  deadline (\<^verbatim>\<open>*int64\<close> seconds) and whether a replica group is declared for a role;
  \<open>MXReplicaSpecs\<close> maps each declared role to its group size. Of the job itself it reads
  the name, the specification and the status; the field \<^verbatim>\<open>Status\<close> of the job is \<open>JobStatus\<close>
  here, \<open>Status\<close> being the field of a condition.
\<close>

record MXJobSpec =
  ActiveDeadlineSeconds :: "64 word option"
  MXReplicaSpecs :: "MXReplicaType \<rightharpoonup> 32 word"

record MXJob =
  Name :: string
  Spec :: MXJobSpec
  JobStatus :: MXJobStatus

text \<open>
  \<open>heap\<close> holds the \<^verbatim>\<open>MXReplicaStatus\<close> structs by address; the addresses below \<open>allocated\<close>
  are in use, and \<^verbatim>\<open>&mxv1.MXReplicaStatus{}\<close> takes the next one. \<open>WorkQueue\<close> records the
  calls \<^verbatim>\<open>tc.WorkQueue.AddAfter(key, duration)\<close> in order, the duration in nanoseconds as the
  \<^verbatim>\<open>int64\<close> it is.
\<close>

record World =
  mxjob :: MXJob
  heap :: "addr \<Rightarrow> MXReplicaStatus"
  allocated :: addr
  WorkQueue :: "(string \<times> 64 word) list"
  clockReads :: nat

text \<open>The error that \<^verbatim>\<open>KeyFunc\<close> may return, and the panic on a nil pointer.\<close>

datatype error = KeyError | NilPointerDereference

subsection \<open>Constants\<close>

definition mxJobCreatedReason :: string where
  "mxJobCreatedReason = ''MXJobCreated''"

definition mxJobSucceededReason :: string where
  "mxJobSucceededReason = ''MXJobSucceeded''"

definition mxJobRunningReason :: string where
  "mxJobRunningReason = ''MXJobRunning''"

definition mxJobFailedReason :: string where
  "mxJobFailedReason = ''MXJobFailed''"

definition mxJobRestartingReason :: string where
  "mxJobRestartingReason = ''MXJobRestarting''"

subsection \<open>The clock\<close>

text \<open>\<^verbatim>\<open>metav1.Now()\<close>: the next reading of the clock.\<close>

definition Now :: "Clock \<Rightarrow> World \<Rightarrow> Time \<times> World" where
  "Now clk w = (clk (clockReads w), w\<lparr>clockReads := Suc (clockReads w)\<rparr>)"

subsection \<open>Conditions\<close>

text \<open>
  \<^verbatim>\<open>newCondition\<close>: the two timestamps are two readings of the clock, \<^verbatim>\<open>LastUpdateTime\<close>
  first (Go evaluates the calls of a composite literal from left to right).
\<close>

definition newCondition ::
  "Clock \<Rightarrow> World \<Rightarrow> MXJobConditionType \<Rightarrow> string \<Rightarrow> string \<Rightarrow> MXJobCondition \<times> World" where
  "newCondition clk w conditionType reason message =
     (case Now clk w of (t1, w1) \<Rightarrow>
      case Now clk w1 of (t2, w2) \<Rightarrow>
        (\<lparr>Type = conditionType, Status = ConditionTrue, Reason = reason, Message = message,
          LastUpdateTime = t1, LastTransitionTime = t2\<rparr>, w2))"

text \<open>
  \<^verbatim>\<open>getCondition\<close> ignores \<open>condType\<close>: it returns the last element of the history, or nil.
\<close>

definition getCondition :: "MXJobStatus \<Rightarrow> MXJobConditionType \<Rightarrow> MXJobCondition option" where
  "getCondition status condType =
     (if length (Conditions status) > 0
      then Some (Conditions status ! (length (Conditions status) - 1))
      else None)"

text \<open>The loop of \<^verbatim>\<open>hasCondition\<close>, with its early return.\<close>

fun hasConditionLoop :: "MXJobCondition list \<Rightarrow> MXJobConditionType \<Rightarrow> bool" where
  "hasConditionLoop [] condType = False"
| "hasConditionLoop (condition # rest) condType =
     (if Type condition = condType \<and> Status condition = ConditionTrue then True
      else hasConditionLoop rest condType)"

definition hasCondition :: "MXJobStatus \<Rightarrow> MXJobConditionType \<Rightarrow> bool" where
  "hasCondition status condType = hasConditionLoop (Conditions status) condType"

definition isSucceeded :: "MXJobStatus \<Rightarrow> bool" where
  "isSucceeded status = hasCondition status MXJobSucceeded"

definition isFailed :: "MXJobStatus \<Rightarrow> bool" where
  "isFailed status = hasCondition status MXJobFailed"

text \<open>
  \<^verbatim>\<open>filterOutCondition\<close>: the loop over the history; each \<^verbatim>\<open>continue\<close> skips the element,
  the last statement of the body appends it (a copy, with its status possibly reset).
\<close>

fun filterOutCondition :: "MXJobCondition list \<Rightarrow> MXJobConditionType \<Rightarrow> MXJobCondition list" where
  "filterOutCondition [] condType = []"
| "filterOutCondition (c # conditions) condType =
     (if condType = MXJobRestarting \<and> Type c = MXJobRunning then
        filterOutCondition conditions condType
      else if condType = MXJobRunning \<and> Type c = MXJobRestarting then
        filterOutCondition conditions condType
      else if Type c = condType then
        filterOutCondition conditions condType
      else
        (if (condType = MXJobFailed \<or> condType = MXJobSucceeded) \<and> Type c = MXJobRunning
         then c\<lparr>Status := ConditionFalse\<rparr> else c)
        # filterOutCondition conditions condType)"

definition setCondition :: "MXJobStatus \<Rightarrow> MXJobCondition \<Rightarrow> MXJobStatus" where
  "setCondition status condition =
     (if isFailed status \<or> isSucceeded status then status
      else
        (case getCondition status (Type condition) of
           None \<Rightarrow>
             status\<lparr>Conditions := filterOutCondition (Conditions status) (Type condition) @ [condition]\<rparr>
         | Some currentCond \<Rightarrow>
             if Status currentCond = Status condition \<and> Reason currentCond = Reason condition
             then status
             else
               (let condition' =
                      (if Status currentCond = Status condition
                       then condition\<lparr>LastTransitionTime := LastTransitionTime currentCond\<rparr>
                       else condition)
                in status\<lparr>Conditions :=
                     filterOutCondition (Conditions status) (Type condition') @ [condition']\<rparr>)))"

text \<open>\<^verbatim>\<open>updateMXJobConditions\<close> always returns nil.\<close>

definition updateMXJobConditions ::
  "Clock \<Rightarrow> World \<Rightarrow> MXJobConditionType \<Rightarrow> string \<Rightarrow> string \<Rightarrow> error option \<times> World" where
  "updateMXJobConditions clk w conditionType reason message =
     (case newCondition clk w conditionType reason message of (condition, w') \<Rightarrow>
        (None, w'\<lparr>mxjob := (mxjob w')\<lparr>JobStatus := setCondition (JobStatus (mxjob w')) condition\<rparr>\<rparr>))"

subsection \<open>The replica status aggregator\<close>

text \<open>
  \<^verbatim>\<open>initializeMXReplicaStatuses\<close>: a new struct, with its counters at zero, is allocated and
  its address stored under \<open>rtype\<close> (a nil map is the empty map, made first).
\<close>

definition initializeMXReplicaStatuses :: "World \<Rightarrow> MXReplicaType \<Rightarrow> World" where
  "initializeMXReplicaStatuses w rtype =
     w\<lparr>mxjob := (mxjob w)\<lparr>JobStatus := (JobStatus (mxjob w))\<lparr>MXReplicaStatuses :=
          (MXReplicaStatuses (JobStatus (mxjob w)))(rtype \<mapsto> allocated w)\<rparr>\<rparr>,
       heap := (heap w)(allocated w := \<lparr>Active = 0, Succeeded = 0, Failed = 0\<rparr>),
       allocated := Suc (allocated w)\<rparr>"

text \<open>
  \<^verbatim>\<open>updateMXJobReplicaStatuses\<close>: the increment is made in the struct that the entry of
  \<open>rtype\<close> points to, so a missing entry panics (when the phase is one of the three counted
  ones), and an entry that shares the struct sees the increment too.
\<close>

definition updateMXJobReplicaStatuses :: "World \<Rightarrow> MXReplicaType \<Rightarrow> Pod \<Rightarrow> error option \<times> World" where
  "updateMXJobReplicaStatuses w rtype pod =
     (let bump = (\<lambda>f. case MXReplicaStatuses (JobStatus (mxjob w)) rtype of
                         None \<Rightarrow> (Some NilPointerDereference, w)
                       | Some p \<Rightarrow> (None, w\<lparr>heap := (heap w)(p := f (heap w p))\<rparr>))
      in case Phase pod of
           PodRunning \<Rightarrow> bump (\<lambda>rs. rs\<lparr>Active := Active rs + 1\<rparr>)
         | PodSucceeded \<Rightarrow> bump (\<lambda>rs. rs\<lparr>Succeeded := Succeeded rs + 1\<rparr>)
         | PodFailed \<Rightarrow> bump (\<lambda>rs. rs\<lparr>Failed := Failed rs + 1\<rparr>)
         | _ \<Rightarrow> (None, w))"

subsection \<open>Deriving the conditions of one replica group\<close>

text \<open>
  Modelled from the spec: \<^verbatim>\<open>ContainSchedulerSpec\<close> is defined in another file; it tells
  whether the job's topology includes a scheduler role at all.
\<close>

definition ContainSchedulerSpec :: "MXJob \<Rightarrow> bool" where
  "ContainSchedulerSpec job = (MXReplicaSpecs (Spec job) MXReplicaTypeScheduler \<noteq> None)"

text \<open>\<^verbatim>\<open>if err != nil { return err }\<close> after a step, then the rest of the function.\<close>

definition andThen ::
  "error option \<times> World \<Rightarrow> (World \<Rightarrow> error option \<times> World) \<Rightarrow> error option \<times> World" where
  "andThen r f = (case r of (Some err, w) \<Rightarrow> (Some err, w) | (None, w) \<Rightarrow> f w)"

text \<open>Lines 59 to 67: the start time, and the delayed sync for a job with a deadline.\<close>

definition setStartTime :: "Clock \<Rightarrow> World \<Rightarrow> string \<Rightarrow> World" where
  "setStartTime clk w mxjobKey =
     (if StartTime (JobStatus (mxjob w)) = None then
        (case Now clk w of (now, w1) \<Rightarrow>
           let w2 = w1\<lparr>mxjob := (mxjob w1)\<lparr>JobStatus := (JobStatus (mxjob w1))\<lparr>StartTime := Some now\<rparr>\<rparr>\<rparr>
           in (case ActiveDeadlineSeconds (Spec (mxjob w2)) of
                 None \<Rightarrow> w2
               | Some ads \<Rightarrow> w2\<lparr>WorkQueue := WorkQueue w2 @ [(mxjobKey, ads * 1000000000)]\<rparr>))
      else w)"

text \<open>The statement that precedes each terminal condition: the completion time, if nil.\<close>

definition setCompletionTime :: "Clock \<Rightarrow> World \<Rightarrow> World" where
  "setCompletionTime clk w =
     (if CompletionTime (JobStatus (mxjob w)) = None then
        (case Now clk w of (now, w1) \<Rightarrow>
           w1\<lparr>mxjob := (mxjob w1)\<lparr>JobStatus := (JobStatus (mxjob w1))\<lparr>CompletionTime := Some now\<rparr>\<rparr>\<rparr>)
      else w)"

text \<open>Lines 69 to 116: the branch on the topology of the job and the role of the group.\<close>

definition topologyBranch ::
  "Clock \<Rightarrow> World \<Rightarrow> MXReplicaType \<Rightarrow> 64 word \<Rightarrow> 64 word \<Rightarrow> bool \<Rightarrow> error option \<times> World" where
  "topologyBranch clk w rtype expected running schedulerCompleted =
     (if ContainSchedulerSpec (mxjob w) then
        (if rtype = MXReplicaTypeScheduler then
           andThen
             (if 0 <s running then
                updateMXJobConditions clk w MXJobRunning mxJobRunningReason
                  (''MXJob '' @ Name (mxjob w) @ '' is running.'')
              else (None, w))
             (\<lambda>w. if expected = 0 then
                    updateMXJobConditions clk (setCompletionTime clk w) MXJobSucceeded
                      mxJobSucceededReason (''MXJob '' @ Name (mxjob w) @ '' is successfully completed.'')
                  else (None, w))
         else (None, w))
      else
        (if rtype = MXReplicaTypeWorker \<or> rtype = MXReplicaTypeTuner then
           (if expected = 0 \<or> schedulerCompleted then
              updateMXJobConditions clk (setCompletionTime clk w) MXJobSucceeded
                mxJobSucceededReason (''MXJob '' @ Name (mxjob w) @ '' is successfully completed.'')
            else if 0 <s running then
              updateMXJobConditions clk w MXJobRunning mxJobRunningReason
                (''MXJob '' @ Name (mxjob w) @ '' is running.'')
            else (None, w))
         else (None, w)))"

text \<open>Lines 118 to 138: the branch on failed pods.\<close>

definition failureBranch :: "Clock \<Rightarrow> World \<Rightarrow> 64 word \<Rightarrow> bool \<Rightarrow> error option \<times> World" where
  "failureBranch clk w failed restart =
     (if 0 <s failed then
        (if restart then
           updateMXJobConditions clk w MXJobRestarting mxJobRestartingReason
             (''MXJob '' @ Name (mxjob w) @ '' is restarting.'')
         else
           updateMXJobConditions clk (setCompletionTime clk w) MXJobFailed mxJobFailedReason
             (''MXJob '' @ Name (mxjob w) @ '' is failed.''))
      else (None, w))"

text \<open>
  \<^verbatim>\<open>updateStatusSingle\<close>. \<open>KeyFunc\<close> is a package variable set elsewhere, hence a parameter;
  its failure is returned before anything is changed. The three counters are read through
  the pointer stored under \<open>rtype\<close>, which panics when there is none; \<^verbatim>\<open>int\<close> is 64 bits wide and
  the conversion from \<^verbatim>\<open>int32\<close> extends the sign.
\<close>

definition updateStatusSingle ::
  "(MXJob \<Rightarrow> error + string) \<Rightarrow> Clock \<Rightarrow> World \<Rightarrow> MXReplicaType \<Rightarrow> 64 word \<Rightarrow> bool \<Rightarrow> bool
     \<Rightarrow> error option \<times> World" where
  "updateStatusSingle KeyFunc clk w rtype replicas restart schedulerCompleted =
     (case KeyFunc (mxjob w) of
        Inl err \<Rightarrow> (Some err, w)
      | Inr mxjobKey \<Rightarrow>
          (case MXReplicaStatuses (JobStatus (mxjob w)) rtype of
             None \<Rightarrow> (Some NilPointerDereference, w)
           | Some p \<Rightarrow>
               (let expected = replicas - scast (Succeeded (heap w p));
                    running = scast (Active (heap w p));
                    failed = scast (Failed (heap w p))
                in andThen
                     (topologyBranch clk (setStartTime clk w mxjobKey) rtype expected running
                        schedulerCompleted)
                     (\<lambda>w. failureBranch clk w failed restart))))"

subsection \<open>Notions used in the statements\<close>

abbreviation statusOf :: "World \<Rightarrow> MXJobStatus" where
  "statusOf w \<equiv> JobStatus (mxjob w)"

text \<open>The counters of a replica group, read through the pointer of its entry.\<close>

definition replicaStatus :: "World \<Rightarrow> MXReplicaType \<Rightarrow> MXReplicaStatus option" where
  "replicaStatus w rtype =
     (case MXReplicaStatuses (statusOf w) rtype of None \<Rightarrow> None | Some p \<Rightarrow> Some (heap w p))"

text \<open>
  No two entries of the map share a struct, and every entry points to an allocated
  struct: \<^verbatim>\<open>initializeMXReplicaStatuses\<close>, the only function that stores an entry, keeps
  both.
\<close>

definition separateEntries :: "World \<Rightarrow> bool" where
  "separateEntries w =
     (\<forall>r r'. MXReplicaStatuses (statusOf w) r \<noteq> None
              \<and> MXReplicaStatuses (statusOf w) r = MXReplicaStatuses (statusOf w) r' \<longrightarrow> r = r')"

definition allocatedEntries :: "World \<Rightarrow> bool" where
  "allocatedEntries w =
     (\<forall>r. case MXReplicaStatuses (statusOf w) r of None \<Rightarrow> True | Some p \<Rightarrow> p < allocated w)"

text \<open>
  A status is completed once it holds a live Failed or Succeeded condition: this is the
  test at the head of \<^verbatim>\<open>setCondition\<close>.
\<close>

definition isCompleted :: "MXJobStatus \<Rightarrow> bool" where
  "isCompleted status = (isFailed status \<or> isSucceeded status)"

text \<open>
  Two properties of the statuses that the code produces, starting from a job without
  conditions. The completion time is assigned right before each terminal condition is
  applied, so a completed status has one. And every condition is built by
  \<^verbatim>\<open>newCondition\<close> with the reason that goes with its type.
\<close>

definition completionRecorded :: "MXJobStatus \<Rightarrow> bool" where
  "completionRecorded status = (isCompleted status \<longrightarrow> CompletionTime status \<noteq> None)"

fun reasonOf :: "MXJobConditionType \<Rightarrow> string" where
  "reasonOf MXJobCreated = mxJobCreatedReason"
| "reasonOf MXJobRunning = mxJobRunningReason"
| "reasonOf MXJobRestarting = mxJobRestartingReason"
| "reasonOf MXJobSucceeded = mxJobSucceededReason"
| "reasonOf MXJobFailed = mxJobFailedReason"

definition reasonsAgree :: "MXJobStatus \<Rightarrow> bool" where
  "reasonsAgree status = (\<forall>c \<in> set (Conditions status). Reason c = reasonOf (Type c))"

text \<open>The last condition of the history is live and carries the given reason.\<close>

definition lastIs :: "MXJobStatus \<Rightarrow> string \<Rightarrow> bool" where
  "lastIs status reason =
     (Conditions status \<noteq> [] \<and> Status (last (Conditions status)) = ConditionTrue
      \<and> Reason (last (Conditions status)) = reason)"

text \<open>
  The tests of the topology branch under which it applies a Succeeded condition, and
  those under which it applies a Running one.
\<close>

definition derivesSucceeded :: "MXJob \<Rightarrow> MXReplicaType \<Rightarrow> 64 word \<Rightarrow> bool \<Rightarrow> bool" where
  "derivesSucceeded job rtype expected schedulerCompleted =
     (if ContainSchedulerSpec job then rtype = MXReplicaTypeScheduler \<and> expected = 0
      else (rtype = MXReplicaTypeWorker \<or> rtype = MXReplicaTypeTuner)
           \<and> (expected = 0 \<or> schedulerCompleted))"

definition derivesRunning :: "MXJob \<Rightarrow> MXReplicaType \<Rightarrow> 64 word \<Rightarrow> 64 word \<Rightarrow> bool \<Rightarrow> bool" where
  "derivesRunning job rtype expected running schedulerCompleted =
     (if ContainSchedulerSpec job then rtype = MXReplicaTypeScheduler \<and> 0 <s running
      else (rtype = MXReplicaTypeWorker \<or> rtype = MXReplicaTypeTuner)
           \<and> \<not> (expected = 0 \<or> schedulerCompleted) \<and> 0 <s running)"

text \<open>
  The world as the topology branch of a call leaves it, for a job whose key is \<open>key\<close> and a
  group whose counters are \<open>rs\<close>: the failure branch runs on it.
\<close>

definition afterTopology ::
  "Clock \<Rightarrow> World \<Rightarrow> string \<Rightarrow> MXReplicaType \<Rightarrow> 64 word \<Rightarrow> MXReplicaStatus \<Rightarrow> bool \<Rightarrow> World" where
  "afterTopology clk w key rtype replicas rs schedulerCompleted =
     snd (topologyBranch clk (setStartTime clk w key) rtype
            (replicas - scast (Succeeded rs)) (scast (Active rs)) schedulerCompleted)"

text \<open>The condition that \<^verbatim>\<open>newCondition\<close> builds once \<open>n\<close> readings of the clock have been taken.\<close>

definition conditionAt ::
  "Clock \<Rightarrow> nat \<Rightarrow> MXJobConditionType \<Rightarrow> string \<Rightarrow> string \<Rightarrow> MXJobCondition" where
  "conditionAt clk n conditionType reason message =
     \<lparr>Type = conditionType, Status = ConditionTrue, Reason = reason, Message = message,
      LastUpdateTime = clk n, LastTransitionTime = clk (Suc n)\<rparr>"

text \<open>
  The lookup that the comment of \<^verbatim>\<open>getCondition\<close> and the spec describe, as opposed to the
  one the code performs: the most recent condition of the requested type. The second
  definition is \<open>setCondition\<close> with this lookup in the place of \<open>getCondition\<close>.
\<close>

definition getConditionOfType :: "MXJobStatus \<Rightarrow> MXJobConditionType \<Rightarrow> MXJobCondition option" where
  "getConditionOfType status condType =
     (case filter (\<lambda>c. Type c = condType) (Conditions status) of
        [] \<Rightarrow> None
      | c # cs \<Rightarrow> Some (last (c # cs)))"

definition setConditionByType :: "MXJobStatus \<Rightarrow> MXJobCondition \<Rightarrow> MXJobStatus" where
  "setConditionByType status condition =
     (if isFailed status \<or> isSucceeded status then status
      else
        (case getConditionOfType status (Type condition) of
           None \<Rightarrow>
             status\<lparr>Conditions := filterOutCondition (Conditions status) (Type condition) @ [condition]\<rparr>
         | Some currentCond \<Rightarrow>
             if Status currentCond = Status condition \<and> Reason currentCond = Reason condition
             then status
             else
               (let condition' =
                      (if Status currentCond = Status condition
                       then condition\<lparr>LastTransitionTime := LastTransitionTime currentCond\<rparr>
                       else condition)
                in status\<lparr>Conditions :=
                     filterOutCondition (Conditions status) (Type condition') @ [condition']\<rparr>)))"

text \<open>Example data: a live condition stamped \<open>n\<close>, and a started status with a given history.\<close>

definition exampleCondition :: "MXJobConditionType \<Rightarrow> string \<Rightarrow> Time \<Rightarrow> MXJobCondition" where
  "exampleCondition conditionType reason n =
     \<lparr>Type = conditionType, Status = ConditionTrue, Reason = reason, Message = [],
      LastUpdateTime = n, LastTransitionTime = n\<rparr>"

definition exampleStatus :: "MXJobCondition list \<Rightarrow> MXJobStatus" where
  "exampleStatus conditions =
     \<lparr>Conditions = conditions, MXReplicaStatuses = Map.empty, StartTime = Some 0,
      CompletionTime = None\<rparr>"

definition exampleJob :: "MXJobSpec \<Rightarrow> MXJobStatus \<Rightarrow> MXJob" where
  "exampleJob spec status = \<lparr>Name = ''mxjob'', Spec = spec, JobStatus = status\<rparr>"

text \<open>Two topologies: three workers alone, and three workers with a scheduler.\<close>

definition workerSpec :: MXJobSpec where
  "workerSpec = \<lparr>ActiveDeadlineSeconds = None, MXReplicaSpecs = [MXReplicaTypeWorker \<mapsto> 3]\<rparr>"

definition schedulerSpec :: MXJobSpec where
  "schedulerSpec =
     \<lparr>ActiveDeadlineSeconds = None,
      MXReplicaSpecs = [MXReplicaTypeScheduler \<mapsto> 1, MXReplicaTypeWorker \<mapsto> 3]\<rparr>"

definition exampleWorld :: "MXJob \<Rightarrow> World" where
  "exampleWorld job =
     \<lparr>mxjob = job, heap = (\<lambda>p. \<lparr>Active = 0, Succeeded = 0, Failed = 0\<rparr>), allocated = 0,
      WorkQueue = [], clockReads = 0\<rparr>"

text \<open>A replica group with given counters: its struct is allocated as the code does.\<close>

definition withCounts ::
  "World \<Rightarrow> MXReplicaType \<Rightarrow> 32 word \<Rightarrow> 32 word \<Rightarrow> 32 word \<Rightarrow> World" where
  "withCounts w rtype active succeeded failed =
     (initializeMXReplicaStatuses w rtype)
       \<lparr>heap := (heap w)(allocated w := \<lparr>Active = active, Succeeded = succeeded, Failed = failed\<rparr>)\<rparr>"

text \<open>
  A world that \<^verbatim>\<open>initializeMXReplicaStatuses\<close> does not produce: the entries of the
  scheduler and of the workers point to one struct, with two active pods counted.
\<close>

definition sharedWorld :: World where
  "sharedWorld =
     (let w = withCounts (exampleWorld (exampleJob schedulerSpec (exampleStatus [])))
                MXReplicaTypeWorker 2 0 0
      in w\<lparr>mxjob := (mxjob w)\<lparr>JobStatus := (JobStatus (mxjob w))\<lparr>MXReplicaStatuses :=
             (MXReplicaStatuses (JobStatus (mxjob w)))(MXReplicaTypeScheduler \<mapsto> 0)\<rparr>\<rparr>\<rparr>)"

text \<open>A key function that succeeds, and a clock that advances by one at each reading.\<close>

definition exampleKeyFunc :: "MXJob \<Rightarrow> error + string" where
  "exampleKeyFunc job = Inr (''default/'' @ Name job)"

definition exampleClock :: Clock where
  "exampleClock n = 100 + n"

text \<open>
  A job that the code has completed: three workers, all succeeded, on an empty history,
  after one call of \<^verbatim>\<open>updateStatusSingle\<close>; then one more pod of the group is observed,
  failed.
\<close>

definition succeededWorld :: World where
  "succeededWorld =
     snd (updateStatusSingle exampleKeyFunc exampleClock
            (withCounts (exampleWorld (exampleJob workerSpec (exampleStatus [])))
               MXReplicaTypeWorker 0 3 0)
            MXReplicaTypeWorker 3 False False)"

definition succeededThenFailedWorld :: World where
  "succeededThenFailedWorld =
     snd (updateMXJobReplicaStatuses succeededWorld MXReplicaTypeWorker \<lparr>Phase = PodFailed\<rparr>)"

section \<open>Properties\<close>

text \<open>The equations that evaluate the code and the example data on concrete inputs.\<close>

lemmas example_defs = exampleWorld_def exampleJob_def exampleStatus_def exampleCondition_def
  withCounts_def initializeMXReplicaStatuses_def replicaStatus_def
  workerSpec_def schedulerSpec_def exampleKeyFunc_def exampleClock_def

lemmas code_defs = updateStatusSingle_def topologyBranch_def failureBranch_def andThen_def
  setStartTime_def setCompletionTime_def updateMXJobConditions_def newCondition_def Now_def
  setCondition_def getCondition_def isFailed_def isSucceeded_def hasCondition_def
  ContainSchedulerSpec_def word_sless_alt conditionAt_def
  mxJobCreatedReason_def mxJobSucceededReason_def mxJobRunningReason_def mxJobFailedReason_def
  mxJobRestartingReason_def

subsection \<open>The history of conditions\<close>

lemma hasConditionLoop_iff:
  "hasConditionLoop cs t \<longleftrightarrow> (\<exists>c\<in>set cs. Type c = t \<and> Status c = ConditionTrue)"
  by (induction cs) auto

lemma getCondition_last:
  "getCondition s t = (if Conditions s = [] then None else Some (last (Conditions s)))"
  by (simp add: getCondition_def last_conv_nth)

text \<open>The loop of \<open>filterOutCondition\<close> drops some entries and resets the status of others.\<close>

lemma filterOutCondition_map_filter:
  "filterOutCondition cs t =
     map (\<lambda>c. if (t = MXJobFailed \<or> t = MXJobSucceeded) \<and> Type c = MXJobRunning
               then c\<lparr>Status := ConditionFalse\<rparr> else c)
       (filter (\<lambda>c. \<not> (t = MXJobRestarting \<and> Type c = MXJobRunning)
                   \<and> \<not> (t = MXJobRunning \<and> Type c = MXJobRestarting) \<and> Type c \<noteq> t) cs)"
  by (induction cs) auto

lemma setCondition_completed: "isCompleted s \<Longrightarrow> setCondition s c = s"
  by (auto simp: setCondition_def isCompleted_def)

lemma setCondition_fields [simp]:
  "StartTime (setCondition s c) = StartTime s"
  "CompletionTime (setCondition s c) = CompletionTime s"
  "MXReplicaStatuses (setCondition s c) = MXReplicaStatuses s"
  by (auto simp: setCondition_def Let_def split: option.splits)

lemma Conditions_update_same: "s\<lparr>Conditions := ys\<rparr> = s \<longleftrightarrow> ys = Conditions s"
proof
  assume "s\<lparr>Conditions := ys\<rparr> = s"
  then have "Conditions (s\<lparr>Conditions := ys\<rparr>) = Conditions s" by simp
  then show "ys = Conditions s" by simp
qed simp

lemma snoc_eq_last:
  "xs @ [x] = ys \<Longrightarrow> ys \<noteq> [] \<and> Status (last ys) = Status x \<and> Reason (last ys) = Reason x"
  by auto

text \<open>
  \<open>setCondition\<close> changes the status exactly when it takes the path that appends: the
  status is not completed and its last condition does not carry the status and the reason
  of the new one.
\<close>

lemma setCondition_changed_iff:
  "setCondition s c \<noteq> s \<longleftrightarrow>
     \<not> isCompleted s \<and> \<not> (Conditions s \<noteq> [] \<and> Status (last (Conditions s)) = Status c
                          \<and> Reason (last (Conditions s)) = Reason c)"
  by (auto simp: setCondition_def isCompleted_def getCondition_last Let_def Conditions_update_same
      dest!: snoc_eq_last)

lemma setCondition_inserted:
  assumes "setCondition s c \<noteq> s"
  shows "\<exists>t. Conditions (setCondition s c) =
           filterOutCondition (Conditions s) (Type c) @ [c\<lparr>LastTransitionTime := t\<rparr>]"
proof -
  have c: "c = c\<lparr>LastTransitionTime := LastTransitionTime c\<rparr>" by simp
  show ?thesis using assms
    apply (simp add: setCondition_def getCondition_last Let_def split: if_splits)
      apply (metis c)
     apply blast
    apply (metis c)
    done
qed

text \<open>
  C3. Running and Restarting exclude each other. Whenever \<open>setCondition\<close> inserts a
  condition (that is, changes the status) of type Restarting, no condition of type Running
  is left in the history, and whenever it inserts one of type Running, none of type
  Restarting is left. The conflicting entries are removed, not marked: what precedes the
  inserted condition is the old history without its Running and Restarting entries, the
  other entries unchanged and in their order.
\<close>

theorem C3_running_restarting_exclusive:
  assumes "setCondition status condition \<noteq> status"
  shows "(Type condition = MXJobRestarting \<longrightarrow>
            (\<forall>c\<in>set (Conditions (setCondition status condition)). Type c \<noteq> MXJobRunning))
       \<and> (Type condition = MXJobRunning \<longrightarrow>
            (\<forall>c\<in>set (Conditions (setCondition status condition)). Type c \<noteq> MXJobRestarting))
       \<and> (Type condition = MXJobRestarting \<or> Type condition = MXJobRunning \<longrightarrow>
            butlast (Conditions (setCondition status condition)) =
              filter (\<lambda>c. Type c \<noteq> MXJobRunning \<and> Type c \<noteq> MXJobRestarting) (Conditions status)
          \<and> Type (last (Conditions (setCondition status condition))) = Type condition
          \<and> Status (last (Conditions (setCondition status condition))) = Status condition)"
proof -
  from setCondition_inserted [OF assms] obtain t where
    eq: "Conditions (setCondition status condition) =
           filterOutCondition (Conditions status) (Type condition) @ [condition\<lparr>LastTransitionTime := t\<rparr>]"
    by blast
  show ?thesis
    unfolding eq filterOutCondition_map_filter
    by (auto intro: filter_cong)
qed

theorem C3_running_restarting_exclusive_witness:
  "setCondition
     (exampleStatus [exampleCondition MXJobCreated mxJobCreatedReason 1,
                     exampleCondition MXJobRunning mxJobRunningReason 2])
     (exampleCondition MXJobRestarting mxJobRestartingReason 3)
   \<noteq> exampleStatus [exampleCondition MXJobCreated mxJobCreatedReason 1,
                     exampleCondition MXJobRunning mxJobRunningReason 2]
   \<and> butlast (Conditions (setCondition
       (exampleStatus [exampleCondition MXJobCreated mxJobCreatedReason 1,
                       exampleCondition MXJobRunning mxJobRunningReason 2])
       (exampleCondition MXJobRestarting mxJobRestartingReason 3)))
     = [exampleCondition MXJobCreated mxJobCreatedReason 1]"
proof -
  have changed: "setCondition
     (exampleStatus [exampleCondition MXJobCreated mxJobCreatedReason 1,
                     exampleCondition MXJobRunning mxJobRunningReason 2])
     (exampleCondition MXJobRestarting mxJobRestartingReason 3)
   \<noteq> exampleStatus [exampleCondition MXJobCreated mxJobCreatedReason 1,
                     exampleCondition MXJobRunning mxJobRunningReason 2]"
    by (simp add: setCondition_changed_iff isCompleted_def isFailed_def isSucceeded_def
        hasCondition_def exampleStatus_def exampleCondition_def mxJobRunningReason_def
        mxJobRestartingReason_def)
  from C3_running_restarting_exclusive [OF changed] changed show ?thesis
    by (simp add: exampleStatus_def exampleCondition_def)
qed

text \<open>
  C10. A Restarting condition survives the insertion of a terminal one. Whenever
  \<open>setCondition\<close> inserts a condition of type Succeeded or Failed, what precedes it is the old
  history without the entries of the inserted type, in which only the entries of type
  Running have changed: their status is now false. Every Restarting or Created entry is
  still there, unchanged, so with the status it had.
\<close>

theorem C10_restarting_survives_terminal:
  assumes "setCondition status condition \<noteq> status"
    and "Type condition = MXJobSucceeded \<or> Type condition = MXJobFailed"
  shows "butlast (Conditions (setCondition status condition)) =
           map (\<lambda>c. if Type c = MXJobRunning then c\<lparr>Status := ConditionFalse\<rparr> else c)
             (filter (\<lambda>c. Type c \<noteq> Type condition) (Conditions status))
       \<and> (\<forall>c\<in>set (Conditions status).
            Type c = MXJobRestarting \<or> Type c = MXJobCreated \<longrightarrow>
              c \<in> set (butlast (Conditions (setCondition status condition))))
       \<and> Type (last (Conditions (setCondition status condition))) = Type condition
       \<and> Status (last (Conditions (setCondition status condition))) = Status condition"
proof -
  from setCondition_inserted [OF assms(1)] obtain t where
    eq: "Conditions (setCondition status condition) =
           filterOutCondition (Conditions status) (Type condition) @ [condition\<lparr>LastTransitionTime := t\<rparr>]"
    by blast
  have pre: "butlast (Conditions (setCondition status condition)) =
           map (\<lambda>c. if Type c = MXJobRunning then c\<lparr>Status := ConditionFalse\<rparr> else c)
             (filter (\<lambda>c. Type c \<noteq> Type condition) (Conditions status))"
    unfolding eq filterOutCondition_map_filter using assms(2)
    by (auto intro: filter_cong)
  have kept: "c \<in> set (butlast (Conditions (setCondition status condition)))"
    if "c \<in> set (Conditions status)" "Type c = MXJobRestarting \<or> Type c = MXJobCreated" for c
  proof -
    from that assms(2) have "c \<in> set (filter (\<lambda>c. Type c \<noteq> Type condition) (Conditions status))"
      by auto
    then have "(if Type c = MXJobRunning then c\<lparr>Status := ConditionFalse\<rparr> else c)
        \<in> set (butlast (Conditions (setCondition status condition)))"
      unfolding pre set_map by (rule imageI)
    with that(2) show ?thesis by auto
  qed
  from pre kept show ?thesis by (simp add: eq)
qed

theorem C10_restarting_survives_terminal_witness:
  "setCondition
     (exampleStatus [exampleCondition MXJobCreated mxJobCreatedReason 1,
                     exampleCondition MXJobRestarting mxJobRestartingReason 2])
     (exampleCondition MXJobFailed mxJobFailedReason 3)
   \<noteq> exampleStatus [exampleCondition MXJobCreated mxJobCreatedReason 1,
                     exampleCondition MXJobRestarting mxJobRestartingReason 2]
   \<and> butlast (Conditions (setCondition
       (exampleStatus [exampleCondition MXJobCreated mxJobCreatedReason 1,
                       exampleCondition MXJobRestarting mxJobRestartingReason 2])
       (exampleCondition MXJobFailed mxJobFailedReason 3)))
     = [exampleCondition MXJobCreated mxJobCreatedReason 1,
        exampleCondition MXJobRestarting mxJobRestartingReason 2]"
proof -
  have changed: "setCondition
     (exampleStatus [exampleCondition MXJobCreated mxJobCreatedReason 1,
                     exampleCondition MXJobRestarting mxJobRestartingReason 2])
     (exampleCondition MXJobFailed mxJobFailedReason 3)
   \<noteq> exampleStatus [exampleCondition MXJobCreated mxJobCreatedReason 1,
                     exampleCondition MXJobRestarting mxJobRestartingReason 2]"
    by (simp add: setCondition_changed_iff isCompleted_def isFailed_def isSucceeded_def
        hasCondition_def exampleStatus_def exampleCondition_def mxJobFailedReason_def
        mxJobRestartingReason_def)
  have terminal: "Type (exampleCondition MXJobFailed mxJobFailedReason 3) = MXJobSucceeded
      \<or> Type (exampleCondition MXJobFailed mxJobFailedReason 3) = MXJobFailed"
    by (simp add: exampleCondition_def)
  from C10_restarting_survives_terminal [OF changed terminal] changed show ?thesis
    by (simp add: exampleStatus_def exampleCondition_def)
qed

subsection \<open>The lookup of the current condition\<close>

text \<open>
  C7. The claim describes \<open>setCondition\<close> with the lookup by type, \<open>setConditionByType\<close>: a
  no-op exactly when a live condition of the same type has the same reason, and a
  transition time that only moves when the status differs from the previous condition of
  that type. The code looks at the last element of the history whatever its type. On the
  history Running (since 1), Created (since 3), inserting Running again at time 5 is not a
  no-op in the code: the old Running entry is dropped and the new one takes the transition
  time 3 of the Created entry. With the lookup by type the status is left as it is.
\<close>

theorem C7_lookup_ignores_type:
  "Conditions (setCondition
     (exampleStatus [exampleCondition MXJobRunning mxJobRunningReason 1,
                     exampleCondition MXJobCreated mxJobCreatedReason 3])
     (exampleCondition MXJobRunning mxJobRunningReason 5))
   = [exampleCondition MXJobCreated mxJobCreatedReason 3,
      (exampleCondition MXJobRunning mxJobRunningReason 5)\<lparr>LastTransitionTime := 3\<rparr>]
   \<and> setConditionByType
     (exampleStatus [exampleCondition MXJobRunning mxJobRunningReason 1,
                     exampleCondition MXJobCreated mxJobCreatedReason 3])
     (exampleCondition MXJobRunning mxJobRunningReason 5)
   = exampleStatus [exampleCondition MXJobRunning mxJobRunningReason 1,
                    exampleCondition MXJobCreated mxJobCreatedReason 3]"
  by (simp add: setCondition_def setConditionByType_def getCondition_def getConditionOfType_def
      isFailed_def isSucceeded_def hasCondition_def exampleStatus_def exampleCondition_def
      mxJobRunningReason_def mxJobCreatedReason_def)

subsection \<open>The replica status aggregator\<close>

lemma sint_increment:
  assumes "sint (x :: 32 word) \<noteq> 2147483647"
  shows "sint (x + 1) = sint x + 1"
proof -
  have hi: "sint x < 2147483648" using sint_lt [of x] by simp
  have lo: "- 2147483648 \<le> sint x" using sint_ge [of x] by simp
  have "sint (x + 1) = signed_take_bit 31 (sint x + 1)"
    by (simp add: sint_word_ariths)
  also have "\<dots> = sint x + 1"
    using hi lo assms by (intro signed_take_bit_int_eq_self) simp_all
  finally show ?thesis .
qed

text \<open>
  C9. Observing a pod. A phase other than Running, Succeeded and Failed leaves everything
  as it is. Otherwise, for a replica type whose entry has been initialized, in a map
  whose entries point to separate structs (as \<open>initializeMXReplicaStatuses\<close> makes them),
  the call returns no error and adds one to the counter of that group that corresponds
  to the phase (Active, Succeeded or Failed; the addition is that of \<^verbatim>\<open>int32\<close>, so exactly one
  more unless the counter was at its maximum), leaves the two other counters of the group
  as they were, and changes nothing else: the counters of every other replica type read
  as before, and the job (its map of pointers, conditions, timestamps, name and
  specification) is the same.
\<close>

theorem C9_observe_pod:
  "(Phase pod \<noteq> PodRunning \<and> Phase pod \<noteq> PodSucceeded \<and> Phase pod \<noteq> PodFailed \<longrightarrow>
      updateMXJobReplicaStatuses w rtype pod = (None, w))
   \<and> (replicaStatus w rtype = Some rs \<and> separateEntries w \<longrightarrow>
        (case updateMXJobReplicaStatuses w rtype pod of (err, w') \<Rightarrow>
           err = None
         \<and> (\<exists>rs'. replicaStatus w' rtype = Some rs'
              \<and> Active rs' = (if Phase pod = PodRunning then Active rs + 1 else Active rs)
              \<and> Succeeded rs' = (if Phase pod = PodSucceeded then Succeeded rs + 1 else Succeeded rs)
              \<and> Failed rs' = (if Phase pod = PodFailed then Failed rs + 1 else Failed rs)
              \<and> (Phase pod = PodRunning \<and> sint (Active rs) \<noteq> 2147483647 \<longrightarrow>
                    sint (Active rs') = sint (Active rs) + 1)
              \<and> (Phase pod = PodSucceeded \<and> sint (Succeeded rs) \<noteq> 2147483647 \<longrightarrow>
                    sint (Succeeded rs') = sint (Succeeded rs) + 1)
              \<and> (Phase pod = PodFailed \<and> sint (Failed rs) \<noteq> 2147483647 \<longrightarrow>
                    sint (Failed rs') = sint (Failed rs) + 1))
         \<and> (\<forall>r. r \<noteq> rtype \<longrightarrow> replicaStatus w' r = replicaStatus w r)
         \<and> mxjob w' = mxjob w
         \<and> separateEntries w'))"
proof -
  have other: "replicaStatus (w\<lparr>heap := (heap w)(p := x)\<rparr>) r = replicaStatus w r"
    if "MXReplicaStatuses (statusOf w) rtype = Some p" "separateEntries w" "r \<noteq> rtype" for p x r
  proof -
    from that have "MXReplicaStatuses (statusOf w) r \<noteq> Some p"
      unfolding separateEntries_def by (metis option.distinct(1))
    then show ?thesis
      by (auto simp: replicaStatus_def split: option.splits)
  qed
  have kept: "separateEntries (w\<lparr>heap := h\<rparr>) = separateEntries w" for h
    by (simp add: separateEntries_def)
  have unobserved: "updateMXJobReplicaStatuses w rtype pod = (None, w)"
    if "Phase pod \<noteq> PodRunning" "Phase pod \<noteq> PodSucceeded" "Phase pod \<noteq> PodFailed"
    using that by (cases "Phase pod") (simp_all add: updateMXJobReplicaStatuses_def)
  have observed: "case updateMXJobReplicaStatuses w rtype pod of (err, w') \<Rightarrow>
           err = None
         \<and> (\<exists>rs'. replicaStatus w' rtype = Some rs'
              \<and> Active rs' = (if Phase pod = PodRunning then Active rs + 1 else Active rs)
              \<and> Succeeded rs' = (if Phase pod = PodSucceeded then Succeeded rs + 1 else Succeeded rs)
              \<and> Failed rs' = (if Phase pod = PodFailed then Failed rs + 1 else Failed rs)
              \<and> (Phase pod = PodRunning \<and> sint (Active rs) \<noteq> 2147483647 \<longrightarrow>
                    sint (Active rs') = sint (Active rs) + 1)
              \<and> (Phase pod = PodSucceeded \<and> sint (Succeeded rs) \<noteq> 2147483647 \<longrightarrow>
                    sint (Succeeded rs') = sint (Succeeded rs) + 1)
              \<and> (Phase pod = PodFailed \<and> sint (Failed rs) \<noteq> 2147483647 \<longrightarrow>
                    sint (Failed rs') = sint (Failed rs) + 1))
         \<and> (\<forall>r. r \<noteq> rtype \<longrightarrow> replicaStatus w' r = replicaStatus w r)
         \<and> mxjob w' = mxjob w
         \<and> separateEntries w'"
    if entry: "replicaStatus w rtype = Some rs" and separate: "separateEntries w"
  proof -
    from entry obtain p where p: "MXReplicaStatuses (statusOf w) rtype = Some p" and rs: "rs = heap w p"
      by (auto simp: replicaStatus_def split: option.splits)
    have here: "replicaStatus (w\<lparr>heap := (heap w)(p := x)\<rparr>) rtype = Some x" for x
      using p by (simp add: replicaStatus_def)
    note there = other [OF p separate]
    have same: "replicaStatus w rtype = Some (heap w p)"
      using entry rs by simp
    show ?thesis
      using p separate
      by (cases "Phase pod")
        (simp_all add: updateMXJobReplicaStatuses_def here there kept rs same sint_increment)
  qed
  show ?thesis
  proof (intro conjI impI)
    assume "Phase pod \<noteq> PodRunning \<and> Phase pod \<noteq> PodSucceeded \<and> Phase pod \<noteq> PodFailed"
    then show "updateMXJobReplicaStatuses w rtype pod = (None, w)"
      using unobserved by simp
  next
    assume "replicaStatus w rtype = Some rs \<and> separateEntries w"
    then have "replicaStatus w rtype = Some rs" and "separateEntries w"
      by simp_all
    then show "case updateMXJobReplicaStatuses w rtype pod of (err, w') \<Rightarrow>
           err = None
         \<and> (\<exists>rs'. replicaStatus w' rtype = Some rs'
              \<and> Active rs' = (if Phase pod = PodRunning then Active rs + 1 else Active rs)
              \<and> Succeeded rs' = (if Phase pod = PodSucceeded then Succeeded rs + 1 else Succeeded rs)
              \<and> Failed rs' = (if Phase pod = PodFailed then Failed rs + 1 else Failed rs)
              \<and> (Phase pod = PodRunning \<and> sint (Active rs) \<noteq> 2147483647 \<longrightarrow>
                    sint (Active rs') = sint (Active rs) + 1)
              \<and> (Phase pod = PodSucceeded \<and> sint (Succeeded rs) \<noteq> 2147483647 \<longrightarrow>
                    sint (Succeeded rs') = sint (Succeeded rs) + 1)
              \<and> (Phase pod = PodFailed \<and> sint (Failed rs) \<noteq> 2147483647 \<longrightarrow>
                    sint (Failed rs') = sint (Failed rs) + 1))
         \<and> (\<forall>r. r \<noteq> rtype \<longrightarrow> replicaStatus w' r = replicaStatus w r)
         \<and> mxjob w' = mxjob w
         \<and> separateEntries w'"
      by (rule observed)
  qed
qed

text \<open>
  Two groups initialized one after the other, then a running worker observed: the worker
  group counts one active pod, the scheduler group is as it was.
\<close>

theorem C9_observe_pod_witness:
  "separateEntries
     (initializeMXReplicaStatuses
        (initializeMXReplicaStatuses (exampleWorld (exampleJob schedulerSpec (exampleStatus [])))
           MXReplicaTypeScheduler)
        MXReplicaTypeWorker)
   \<and> fst (updateMXJobReplicaStatuses
       (initializeMXReplicaStatuses
          (initializeMXReplicaStatuses (exampleWorld (exampleJob schedulerSpec (exampleStatus [])))
             MXReplicaTypeScheduler)
          MXReplicaTypeWorker)
       MXReplicaTypeWorker \<lparr>Phase = PodRunning\<rparr>) = None
   \<and> (\<exists>rs'. replicaStatus (snd (updateMXJobReplicaStatuses
         (initializeMXReplicaStatuses
            (initializeMXReplicaStatuses (exampleWorld (exampleJob schedulerSpec (exampleStatus [])))
               MXReplicaTypeScheduler)
            MXReplicaTypeWorker)
         MXReplicaTypeWorker \<lparr>Phase = PodRunning\<rparr>)) MXReplicaTypeWorker = Some rs'
       \<and> Active rs' = 1 \<and> Succeeded rs' = 0 \<and> Failed rs' = 0)
   \<and> replicaStatus (snd (updateMXJobReplicaStatuses
         (initializeMXReplicaStatuses
            (initializeMXReplicaStatuses (exampleWorld (exampleJob schedulerSpec (exampleStatus [])))
               MXReplicaTypeScheduler)
            MXReplicaTypeWorker)
         MXReplicaTypeWorker \<lparr>Phase = PodRunning\<rparr>)) MXReplicaTypeScheduler
     = Some \<lparr>Active = 0, Succeeded = 0, Failed = 0\<rparr>"
proof -
  let ?w = "initializeMXReplicaStatuses
        (initializeMXReplicaStatuses (exampleWorld (exampleJob schedulerSpec (exampleStatus [])))
           MXReplicaTypeScheduler)
        MXReplicaTypeWorker"
  have entry: "replicaStatus ?w MXReplicaTypeWorker = Some \<lparr>Active = 0, Succeeded = 0, Failed = 0\<rparr>"
    by (simp add: example_defs)
  have scheduler: "replicaStatus ?w MXReplicaTypeScheduler
      = Some \<lparr>Active = 0, Succeeded = 0, Failed = 0\<rparr>"
    by (simp add: example_defs)
  have separate: "separateEntries ?w"
    by (auto simp: separateEntries_def example_defs split: if_splits)
  from C9_observe_pod [where w = ?w and rtype = MXReplicaTypeWorker
      and pod = "\<lparr>Phase = PodRunning\<rparr>" and rs = "\<lparr>Active = 0, Succeeded = 0, Failed = 0\<rparr>"]
    entry separate scheduler
  show ?thesis
    by (auto simp: split_beta)
qed

text \<open>
  What the two hypotheses exclude. Without an entry the increment goes through a nil
  pointer and the call panics; and when two entries share a struct, a pod observed for
  one group is counted for both. Neither arises after \<open>initializeMXReplicaStatuses\<close>,
  which gives every group a struct of its own.
\<close>

lemma updateMXJobReplicaStatuses_missing_entry:
  assumes "replicaStatus w rtype = None"
    and "Phase pod = PodRunning \<or> Phase pod = PodSucceeded \<or> Phase pod = PodFailed"
  shows "updateMXJobReplicaStatuses w rtype pod = (Some NilPointerDereference, w)"
  using assms
  by (auto simp: updateMXJobReplicaStatuses_def replicaStatus_def split: option.splits)

lemma updateMXJobReplicaStatuses_shared_struct:
  "\<not> separateEntries sharedWorld
   \<and> replicaStatus sharedWorld MXReplicaTypeScheduler = Some \<lparr>Active = 2, Succeeded = 0, Failed = 0\<rparr>
   \<and> replicaStatus (snd (updateMXJobReplicaStatuses sharedWorld MXReplicaTypeWorker \<lparr>Phase = PodRunning\<rparr>))
       MXReplicaTypeWorker = Some \<lparr>Active = 3, Succeeded = 0, Failed = 0\<rparr>
   \<and> replicaStatus (snd (updateMXJobReplicaStatuses sharedWorld MXReplicaTypeWorker \<lparr>Phase = PodRunning\<rparr>))
       MXReplicaTypeScheduler = Some \<lparr>Active = 3, Succeeded = 0, Failed = 0\<rparr>"
proof -
  have "MXReplicaStatuses (statusOf sharedWorld) MXReplicaTypeScheduler = Some 0"
    "MXReplicaStatuses (statusOf sharedWorld) MXReplicaTypeWorker = Some 0"
    by (simp_all add: sharedWorld_def example_defs Let_def)
  then have "\<not> separateEntries sharedWorld"
    unfolding separateEntries_def by (metis MXReplicaType.distinct(1) option.distinct(1))
  then show ?thesis
    by (simp add: sharedWorld_def example_defs Let_def updateMXJobReplicaStatuses_def)
qed

lemma initializeMXReplicaStatuses_entries:
  assumes separate: "separateEntries w" and allocated: "allocatedEntries w"
  shows "replicaStatus (initializeMXReplicaStatuses w rtype) rtype
           = Some \<lparr>Active = 0, Succeeded = 0, Failed = 0\<rparr>"
    and "r \<noteq> rtype \<Longrightarrow> replicaStatus (initializeMXReplicaStatuses w rtype) r = replicaStatus w r"
    and "separateEntries (initializeMXReplicaStatuses w rtype)"
    and "allocatedEntries (initializeMXReplicaStatuses w rtype)"
proof -
  have fresh: "MXReplicaStatuses (statusOf w) r \<noteq> Some (allocated w)" for r
    using allocated [unfolded allocatedEntries_def, rule_format, of r]
    by (auto split: option.splits)
  show "replicaStatus (initializeMXReplicaStatuses w rtype) rtype
           = Some \<lparr>Active = 0, Succeeded = 0, Failed = 0\<rparr>"
    by (simp add: replicaStatus_def initializeMXReplicaStatuses_def)
  show "replicaStatus (initializeMXReplicaStatuses w rtype) r = replicaStatus w r" if "r \<noteq> rtype"
    using that fresh [of r]
    by (auto simp: replicaStatus_def initializeMXReplicaStatuses_def split: option.splits)
  show "separateEntries (initializeMXReplicaStatuses w rtype)"
    unfolding separateEntries_def
  proof (intro allI impI)
    fix r r'
    let ?m = "MXReplicaStatuses (statusOf (initializeMXReplicaStatuses w rtype))"
    assume entry: "?m r \<noteq> None \<and> ?m r = ?m r'"
    have m: "?m = (MXReplicaStatuses (statusOf w))(rtype \<mapsto> allocated w)"
      by (simp add: initializeMXReplicaStatuses_def)
    show "r = r'"
    proof (cases "r = rtype"; cases "r' = rtype")
      assume "r = rtype" "r' = rtype"
      then show ?thesis by simp
    next
      assume "r = rtype" "r' \<noteq> rtype"
      with entry m fresh [of r'] show ?thesis by simp
    next
      assume "r \<noteq> rtype" "r' = rtype"
      with entry m fresh [of r] show ?thesis by simp
    next
      assume "r \<noteq> rtype" "r' \<noteq> rtype"
      then have "?m r = MXReplicaStatuses (statusOf w) r" "?m r' = MXReplicaStatuses (statusOf w) r'"
        by (simp_all add: m)
      with entry have "MXReplicaStatuses (statusOf w) r \<noteq> None
          \<and> MXReplicaStatuses (statusOf w) r = MXReplicaStatuses (statusOf w) r'"
        by metis
      with separate show ?thesis
        unfolding separateEntries_def by blast
    qed
  qed
  show "allocatedEntries (initializeMXReplicaStatuses w rtype)"
    unfolding allocatedEntries_def
  proof
    fix r
    from allocated [unfolded allocatedEntries_def, rule_format, of r]
    show "case MXReplicaStatuses (statusOf (initializeMXReplicaStatuses w rtype)) r of
        None \<Rightarrow> True | Some p \<Rightarrow> p < allocated (initializeMXReplicaStatuses w rtype)"
      by (auto simp: initializeMXReplicaStatuses_def split: option.splits)
  qed
qed

lemma updateMXJobReplicaStatuses_entries:
  "allocatedEntries w \<Longrightarrow> allocatedEntries (snd (updateMXJobReplicaStatuses w rtype pod))"
  by (cases "Phase pod")
    (auto simp: updateMXJobReplicaStatuses_def allocatedEntries_def split: option.splits)

subsection \<open>The steps of \<open>updateStatusSingle\<close>\<close>

lemma isCompleted_Conditions:
  "Conditions s = Conditions s' \<Longrightarrow> isCompleted s = isCompleted s'"
  by (simp add: isCompleted_def isFailed_def isSucceeded_def hasCondition_def)

lemma isCompleted_update [simp]:
  "isCompleted (s\<lparr>StartTime := a\<rparr>) = isCompleted s"
  "isCompleted (s\<lparr>CompletionTime := b\<rparr>) = isCompleted s"
  by (simp_all add: isCompleted_def isFailed_def isSucceeded_def hasCondition_def)

lemma updateMXJobConditions_proj [simp]:
  "fst (updateMXJobConditions clk w t r m) = None"
  "mxjob (snd (updateMXJobConditions clk w t r m)) =
     (mxjob w)\<lparr>JobStatus := setCondition (statusOf w) (conditionAt clk (clockReads w) t r m)\<rparr>"
  "clockReads (snd (updateMXJobConditions clk w t r m)) = Suc (Suc (clockReads w))"
  "WorkQueue (snd (updateMXJobConditions clk w t r m)) = WorkQueue w"
  "heap (snd (updateMXJobConditions clk w t r m)) = heap w"
  "allocated (snd (updateMXJobConditions clk w t r m)) = allocated w"
  by (simp_all add: updateMXJobConditions_def newCondition_def Now_def conditionAt_def)

lemma setCompletionTime_proj [simp]:
  "mxjob (setCompletionTime clk w) =
     (mxjob w)\<lparr>JobStatus := (if CompletionTime (statusOf w) = None
        then (statusOf w)\<lparr>CompletionTime := Some (clk (clockReads w))\<rparr> else statusOf w)\<rparr>"
  "clockReads (setCompletionTime clk w) =
     (if CompletionTime (statusOf w) = None then Suc (clockReads w) else clockReads w)"
  "WorkQueue (setCompletionTime clk w) = WorkQueue w"
  "heap (setCompletionTime clk w) = heap w"
  "allocated (setCompletionTime clk w) = allocated w"
  by (simp_all add: setCompletionTime_def Now_def)

lemma setStartTime_proj [simp]:
  "mxjob (setStartTime clk w k) =
     (mxjob w)\<lparr>JobStatus := (if StartTime (statusOf w) = None
        then (statusOf w)\<lparr>StartTime := Some (clk (clockReads w))\<rparr> else statusOf w)\<rparr>"
  "clockReads (setStartTime clk w k) =
     (if StartTime (statusOf w) = None then Suc (clockReads w) else clockReads w)"
  "heap (setStartTime clk w k) = heap w"
  "allocated (setStartTime clk w k) = allocated w"
  by (simp_all add: setStartTime_def Now_def Let_def split: option.splits)

lemma andThen_None: "fst r = None \<Longrightarrow> andThen r f = f (snd r)"
  by (cases r) (simp add: andThen_def)

lemma topologyBranch_fst [simp]: "fst (topologyBranch clk w rtype e r sc) = None"
  by (simp add: topologyBranch_def andThen_None)

lemma failureBranch_fst [simp]: "fst (failureBranch clk w f restart) = None"
  by (simp add: failureBranch_def)

text \<open>On the main path the call is the three steps in a row and returns nil.\<close>

lemma updateStatusSingle_main:
  assumes "KeyFunc (mxjob w) = Inr key" and "replicaStatus w rtype = Some rs"
  shows "updateStatusSingle KeyFunc clk w rtype replicas restart sc =
           failureBranch clk
             (snd (topologyBranch clk (setStartTime clk w key) rtype
                (replicas - scast (Succeeded rs)) (scast (Active rs)) sc))
             (scast (Failed rs)) restart"
  using assms
  by (auto simp: updateStatusSingle_def replicaStatus_def andThen_None split: option.splits)

lemma updateStatusSingle_cases:
  obtains (KeyError) err where "KeyFunc (mxjob w) = Inl err"
      "updateStatusSingle KeyFunc clk w rtype replicas restart sc = (Some err, w)"
  | (Panic) key where "KeyFunc (mxjob w) = Inr key" "replicaStatus w rtype = None"
      "updateStatusSingle KeyFunc clk w rtype replicas restart sc = (Some NilPointerDereference, w)"
  | (Main) key rs where "KeyFunc (mxjob w) = Inr key" "replicaStatus w rtype = Some rs"
      "updateStatusSingle KeyFunc clk w rtype replicas restart sc =
         failureBranch clk
           (snd (topologyBranch clk (setStartTime clk w key) rtype
              (replicas - scast (Succeeded rs)) (scast (Active rs)) sc))
           (scast (Failed rs)) restart"
proof (cases "KeyFunc (mxjob w)")
  case (Inl err)
  then show ?thesis using KeyError by (simp add: updateStatusSingle_def)
next
  case (Inr key)
  show ?thesis
  proof (cases "replicaStatus w rtype")
    case None
    with Inr show ?thesis using Panic
      by (simp add: updateStatusSingle_def replicaStatus_def split: option.splits)
  next
    case (Some rs)
    with Inr show ?thesis using Main updateStatusSingle_main by blast
  qed
qed

text \<open>What each step leaves alone.\<close>

lemma topologyBranch_completed:
  "isCompleted (statusOf w) \<Longrightarrow>
     Conditions (statusOf (snd (topologyBranch clk w rtype e r sc))) = Conditions (statusOf w)"
  by (simp add: topologyBranch_def andThen_None setCondition_completed)

lemma failureBranch_completed:
  "isCompleted (statusOf w) \<Longrightarrow>
     Conditions (statusOf (snd (failureBranch clk w f restart))) = Conditions (statusOf w)"
  by (simp add: failureBranch_def setCondition_completed)

lemma topologyBranch_CompletionTime:
  "CompletionTime (statusOf w) \<noteq> None \<Longrightarrow>
     CompletionTime (statusOf (snd (topologyBranch clk w rtype e r sc))) = CompletionTime (statusOf w)"
  by (auto simp: topologyBranch_def andThen_None)

lemma failureBranch_CompletionTime:
  "CompletionTime (statusOf w) \<noteq> None \<Longrightarrow>
     CompletionTime (statusOf (snd (failureBranch clk w f restart))) = CompletionTime (statusOf w)"
  by (auto simp: failureBranch_def)

lemma topologyBranch_StartTime [simp]:
  "StartTime (statusOf (snd (topologyBranch clk w rtype e r sc))) = StartTime (statusOf w)"
  by (simp add: topologyBranch_def andThen_None)

lemma failureBranch_StartTime [simp]:
  "StartTime (statusOf (snd (failureBranch clk w f restart))) = StartTime (statusOf w)"
  by (simp add: failureBranch_def)

text \<open>
  No step touches the map of replica statuses or the structs it points to: the counters
  are read, never written.
\<close>

lemma topologyBranch_MXReplicaStatuses [simp]:
  "MXReplicaStatuses (statusOf (snd (topologyBranch clk w rtype e r sc)))
     = MXReplicaStatuses (statusOf w)"
  "heap (snd (topologyBranch clk w rtype e r sc)) = heap w"
  "allocated (snd (topologyBranch clk w rtype e r sc)) = allocated w"
  by (simp_all add: topologyBranch_def andThen_None)

lemma failureBranch_MXReplicaStatuses [simp]:
  "MXReplicaStatuses (statusOf (snd (failureBranch clk w f restart)))
     = MXReplicaStatuses (statusOf w)"
  "heap (snd (failureBranch clk w f restart)) = heap w"
  "allocated (snd (failureBranch clk w f restart)) = allocated w"
  by (simp_all add: failureBranch_def)

lemma setStartTime_MXReplicaStatuses [simp]:
  "MXReplicaStatuses (statusOf (setStartTime clk w k)) = MXReplicaStatuses (statusOf w)"
  by simp

lemma replicaStatus_steps [simp]:
  "replicaStatus (setStartTime clk w k) r = replicaStatus w r"
  "replicaStatus (snd (topologyBranch clk w rtype e n sc)) r = replicaStatus w r"
  "replicaStatus (snd (failureBranch clk w f restart)) r = replicaStatus w r"
  by (simp_all add: replicaStatus_def cong: option.case_cong)

lemma updateStatusSingle_MXReplicaStatuses:
  "MXReplicaStatuses (statusOf (snd (updateStatusSingle KeyFunc clk w rtype replicas restart sc)))
     = MXReplicaStatuses (statusOf w)"
  "heap (snd (updateStatusSingle KeyFunc clk w rtype replicas restart sc)) = heap w"
  "allocated (snd (updateStatusSingle KeyFunc clk w rtype replicas restart sc)) = allocated w"
  "replicaStatus (snd (updateStatusSingle KeyFunc clk w rtype replicas restart sc)) r
     = replicaStatus w r"
  by (cases rule: updateStatusSingle_cases
      [where KeyFunc = KeyFunc and w = w and rtype = rtype and clk = clk
         and replicas = replicas and restart = restart and sc = sc]; simp)+

subsection \<open>The terminal lock\<close>

text \<open>
  On a completed status a call leaves the history as it is, and leaves the completion
  time as it is once that is set.
\<close>

lemma updateStatusSingle_completed:
  assumes done0: "isCompleted (statusOf w)"
  shows "Conditions (statusOf (snd (updateStatusSingle KeyFunc clk w rtype replicas restart sc)))
           = Conditions (statusOf w)"
    and "CompletionTime (statusOf w) \<noteq> None \<Longrightarrow>
         CompletionTime (statusOf (snd (updateStatusSingle KeyFunc clk w rtype replicas restart sc)))
           = CompletionTime (statusOf w)"
proof -
  let ?w' = "snd (updateStatusSingle KeyFunc clk w rtype replicas restart sc)"
  have "Conditions (statusOf ?w') = Conditions (statusOf w) \<and>
      (CompletionTime (statusOf w) \<noteq> None \<longrightarrow> CompletionTime (statusOf ?w') = CompletionTime (statusOf w))"
  proof (cases rule: updateStatusSingle_cases
      [where KeyFunc = KeyFunc and w = w and rtype = rtype and clk = clk
         and replicas = replicas and restart = restart and sc = sc])
    case (KeyError err)
    then show ?thesis by simp
  next
    case (Panic key)
    then show ?thesis by simp
  next
    case (Main key rs)
    let ?w1 = "setStartTime clk w key"
    let ?w2 = "snd (topologyBranch clk ?w1 rtype (replicas - scast (Succeeded rs)) (scast (Active rs)) sc)"
    have c1: "Conditions (statusOf ?w1) = Conditions (statusOf w)"
      and t1: "CompletionTime (statusOf ?w1) = CompletionTime (statusOf w)"
      by simp_all
    from done0 c1 have d1: "isCompleted (statusOf ?w1)"
      using isCompleted_Conditions by blast
    have c2: "Conditions (statusOf ?w2) = Conditions (statusOf ?w1)"
      using d1 by (rule topologyBranch_completed)
    with d1 have d2: "isCompleted (statusOf ?w2)"
      using isCompleted_Conditions by blast
    have c3: "Conditions (statusOf (snd (failureBranch clk ?w2 (scast (Failed rs)) restart)))
        = Conditions (statusOf ?w2)"
      using d2 by (rule failureBranch_completed)
    have t3: "CompletionTime (statusOf (snd (failureBranch clk ?w2 (scast (Failed rs)) restart)))
        = CompletionTime (statusOf w)" if "CompletionTime (statusOf w) \<noteq> None"
      using that t1 topologyBranch_CompletionTime [of ?w1] failureBranch_CompletionTime [of ?w2]
      by simp
    from c1 c2 c3 t3 Main(3) show ?thesis
      by simp
  qed
  then show "Conditions (statusOf ?w') = Conditions (statusOf w)"
    and "CompletionTime (statusOf w) \<noteq> None \<Longrightarrow>
         CompletionTime (statusOf ?w') = CompletionTime (statusOf w)"
    by simp_all
qed

text \<open>
  C1. The terminal lock. Take a status that holds a live Succeeded or Failed condition,
  with its completion time recorded, as it is in every status that the code has
  completed. Then \<open>setCondition\<close> is a no-op, and a call of \<open>updateStatusSingle\<close>, whatever
  its arguments, leaves the list of conditions and the completion time as they are. The
  status that the call returns is again terminal with its completion time recorded, so
  the same holds for every call that follows.
\<close>

theorem C1_terminal_lock:
  assumes "isSucceeded (statusOf w) \<or> isFailed (statusOf w)"
    and "completionRecorded (statusOf w)"
  shows "setCondition (statusOf w) condition = statusOf w
       \<and> Conditions (statusOf (snd (updateStatusSingle KeyFunc clk w rtype replicas restart sc)))
           = Conditions (statusOf w)
       \<and> CompletionTime (statusOf (snd (updateStatusSingle KeyFunc clk w rtype replicas restart sc)))
           = CompletionTime (statusOf w)
       \<and> (isSucceeded (statusOf (snd (updateStatusSingle KeyFunc clk w rtype replicas restart sc)))
          \<or> isFailed (statusOf (snd (updateStatusSingle KeyFunc clk w rtype replicas restart sc))))
       \<and> completionRecorded
            (statusOf (snd (updateStatusSingle KeyFunc clk w rtype replicas restart sc)))"
proof -
  let ?w' = "snd (updateStatusSingle KeyFunc clk w rtype replicas restart sc)"
  from assms(1) have done0: "isCompleted (statusOf w)"
    by (auto simp: isCompleted_def)
  with assms(2) have recorded: "CompletionTime (statusOf w) \<noteq> None"
    by (simp add: completionRecorded_def)
  have conds: "Conditions (statusOf ?w') = Conditions (statusOf w)"
    using done0 by (rule updateStatusSingle_completed(1))
  have time: "CompletionTime (statusOf ?w') = CompletionTime (statusOf w)"
    using done0 recorded by (rule updateStatusSingle_completed(2))
  from conds done0 have done1: "isCompleted (statusOf ?w')"
    using isCompleted_Conditions by blast
  from time recorded have "completionRecorded (statusOf ?w')"
    by (simp add: completionRecorded_def)
  with conds time done1 setCondition_completed [OF done0, of condition] show ?thesis
    by (auto simp: isCompleted_def)
qed

text \<open>
  A job that the code has completed as Succeeded at time 100, for which a failed pod is
  then observed: the next call derives Succeeded and Failed, and changes neither the
  history nor the completion time.
\<close>

theorem C1_terminal_lock_witness:
  "(isSucceeded (statusOf succeededThenFailedWorld) \<or> isFailed (statusOf succeededThenFailedWorld))
   \<and> completionRecorded (statusOf succeededThenFailedWorld)
   \<and> replicaStatus succeededThenFailedWorld MXReplicaTypeWorker
       = Some \<lparr>Active = 0, Succeeded = 3, Failed = 1\<rparr>
   \<and> Conditions (statusOf (snd (updateStatusSingle exampleKeyFunc exampleClock
        succeededThenFailedWorld MXReplicaTypeWorker 3 False False)))
     = [\<lparr>Type = MXJobSucceeded, Status = ConditionTrue, Reason = ''MXJobSucceeded'',
         Message = ''MXJob mxjob is successfully completed.'',
         LastUpdateTime = 101, LastTransitionTime = 102\<rparr>]
   \<and> CompletionTime (statusOf (snd (updateStatusSingle exampleKeyFunc exampleClock
        succeededThenFailedWorld MXReplicaTypeWorker 3 False False))) = Some 100"
proof -
  have before: "Conditions (statusOf succeededThenFailedWorld)
      = [\<lparr>Type = MXJobSucceeded, Status = ConditionTrue, Reason = ''MXJobSucceeded'',
          Message = ''MXJob mxjob is successfully completed.'',
          LastUpdateTime = 101, LastTransitionTime = 102\<rparr>]"
    "CompletionTime (statusOf succeededThenFailedWorld) = Some 100"
    "replicaStatus succeededThenFailedWorld MXReplicaTypeWorker
       = Some \<lparr>Active = 0, Succeeded = 3, Failed = 1\<rparr>"
    by (simp_all add: succeededThenFailedWorld_def succeededWorld_def
        updateMXJobReplicaStatuses_def example_defs code_defs mxJobSucceededReason_def)
  have locked: "isSucceeded (statusOf succeededThenFailedWorld)
      \<or> isFailed (statusOf succeededThenFailedWorld)"
    by (simp add: before isSucceeded_def hasCondition_def)
  have recorded: "completionRecorded (statusOf succeededThenFailedWorld)"
    by (simp add: before completionRecorded_def)
  from C1_terminal_lock [OF locked recorded, where KeyFunc = exampleKeyFunc and clk = exampleClock
      and rtype = MXReplicaTypeWorker and replicas = 3 and restart = False and sc = False]
    locked recorded before
  show ?thesis
    by simp
qed

subsection \<open>What an application of a condition settles\<close>

lemma conditionAt_simps [simp]:
  "Type (conditionAt clk n t r m) = t"
  "Status (conditionAt clk n t r m) = ConditionTrue"
  "Reason (conditionAt clk n t r m) = r"
  "Message (conditionAt clk n t r m) = m"
  "LastUpdateTime (conditionAt clk n t r m) = clk n"
  "LastTransitionTime (conditionAt clk n t r m) = clk (Suc n)"
  by (simp_all add: conditionAt_def)

lemma reasons_distinct [simp]:
  "mxJobRunningReason \<noteq> mxJobSucceededReason" "mxJobSucceededReason \<noteq> mxJobRunningReason"
  "mxJobRunningReason \<noteq> mxJobFailedReason" "mxJobFailedReason \<noteq> mxJobRunningReason"
  "mxJobRunningReason \<noteq> mxJobRestartingReason" "mxJobRestartingReason \<noteq> mxJobRunningReason"
  "mxJobSucceededReason \<noteq> mxJobFailedReason" "mxJobFailedReason \<noteq> mxJobSucceededReason"
  "mxJobSucceededReason \<noteq> mxJobRestartingReason" "mxJobRestartingReason \<noteq> mxJobSucceededReason"
  "mxJobFailedReason \<noteq> mxJobRestartingReason" "mxJobRestartingReason \<noteq> mxJobFailedReason"
  by (simp_all add: mxJobRunningReason_def mxJobSucceededReason_def mxJobFailedReason_def
      mxJobRestartingReason_def)

lemma lastIs_Conditions: "Conditions s = Conditions s' \<Longrightarrow> lastIs s r = lastIs s' r"
  by (simp add: lastIs_def)

lemma lastIs_update [simp]:
  "lastIs (s\<lparr>StartTime := a\<rparr>) r = lastIs s r"
  "lastIs (s\<lparr>CompletionTime := b\<rparr>) r = lastIs s r"
  by (simp_all add: lastIs_def)

lemma lastIs_unique: "lastIs s r \<Longrightarrow> lastIs s r' \<Longrightarrow> r = r'"
  by (simp add: lastIs_def)

text \<open>After a live condition has been applied, a second one with its reason changes nothing.\<close>

lemma setCondition_settles:
  assumes "Status c = ConditionTrue"
  shows "isCompleted (setCondition s c) \<or> lastIs (setCondition s c) (Reason c)"
proof (cases "setCondition s c = s")
  case True
  with assms show ?thesis
    using setCondition_changed_iff [of s c] by (auto simp: lastIs_def)
next
  case False
  from setCondition_inserted [OF False] assms show ?thesis
    by (auto simp: lastIs_def)
qed

lemma setCondition_lastIs:
  "lastIs s (Reason c) \<Longrightarrow> Status c = ConditionTrue \<Longrightarrow> setCondition s c = s"
  using setCondition_changed_iff [of s c] by (auto simp: lastIs_def)

lemma setCondition_keeps_completed: "isCompleted s \<Longrightarrow> isCompleted (setCondition s c)"
  by (simp add: setCondition_completed)

text \<open>A live terminal condition completes the status, unless the lookup takes it for present.\<close>

lemma setCondition_completes:
  assumes "Type c = MXJobSucceeded \<or> Type c = MXJobFailed" and "Status c = ConditionTrue"
  shows "isCompleted (setCondition s c) \<or> lastIs s (Reason c)"
proof (cases "setCondition s c = s")
  case True
  with assms show ?thesis
    using setCondition_changed_iff [of s c] by (auto simp: lastIs_def)
next
  case False
  from setCondition_inserted [OF False] obtain t where
    "Conditions (setCondition s c) = filterOutCondition (Conditions s) (Type c) @ [c\<lparr>LastTransitionTime := t\<rparr>]"
    by blast
  with assms have "isCompleted (setCondition s c)"
    by (auto simp: isCompleted_def isFailed_def isSucceeded_def hasCondition_def hasConditionLoop_iff)
  then show ?thesis ..
qed

text \<open>
  A terminal condition applied right after a live condition with another reason always
  completes the status: the lookup finds the condition just applied.
\<close>

lemma setCondition_then_terminal:
  assumes same: "Conditions s' = Conditions (setCondition s c1)"
    and live: "Status c1 = ConditionTrue" "Status c2 = ConditionTrue"
    and terminal: "Type c2 = MXJobSucceeded \<or> Type c2 = MXJobFailed"
    and reasons: "Reason c1 \<noteq> Reason c2"
  shows "isCompleted (setCondition s' c2)"
proof -
  from setCondition_completes [OF terminal live(2), of s']
  consider "isCompleted (setCondition s' c2)" | "lastIs s' (Reason c2)" by blast
  then show ?thesis
  proof cases
    case 1
    then show ?thesis .
  next
    case 2
    with same have last2: "lastIs (setCondition s c1) (Reason c2)"
      using lastIs_Conditions by blast
    from setCondition_settles [OF live(1), of s]
    have "isCompleted (setCondition s c1)"
      using last2 reasons lastIs_unique by blast
    with same have "isCompleted s'"
      using isCompleted_Conditions by blast
    then show ?thesis by (rule setCondition_keeps_completed)
  qed
qed

subsection \<open>The outcome of the two branches\<close>

lemma topologyBranch_idle:
  "\<not> derivesRunning (mxjob w) rtype e r sc \<Longrightarrow> \<not> derivesSucceeded (mxjob w) rtype e sc \<Longrightarrow>
     topologyBranch clk w rtype e r sc = (None, w)"
  by (auto simp: topologyBranch_def andThen_def derivesRunning_def derivesSucceeded_def)

lemma failureBranch_idle: "\<not> 0 <s f \<Longrightarrow> failureBranch clk w f restart = (None, w)"
  by (simp add: failureBranch_def)

lemma topologyBranch_CompletionTime_changed:
  assumes "CompletionTime (statusOf (snd (topologyBranch clk w rtype e r sc)))
             \<noteq> CompletionTime (statusOf w)"
  shows "CompletionTime (statusOf w) = None \<and> derivesSucceeded (mxjob w) rtype e sc"
  using assms
  by (auto simp: topologyBranch_def andThen_None derivesSucceeded_def split: if_splits)

lemma failureBranch_CompletionTime_changed:
  assumes "CompletionTime (statusOf (snd (failureBranch clk w f restart)))
             \<noteq> CompletionTime (statusOf w)"
  shows "CompletionTime (statusOf w) = None \<and> 0 <s f \<and> \<not> restart"
  using assms by (auto simp: failureBranch_def split: if_splits)

lemma topologyBranch_succeeded_outcome:
  assumes "derivesSucceeded (mxjob w) rtype e sc"
  shows "isCompleted (statusOf (snd (topologyBranch clk w rtype e r sc)))
       \<or> lastIs (statusOf w) mxJobSucceededReason"
proof (cases "ContainSchedulerSpec (mxjob w) \<and> 0 <s r")
  case True
  with assms have "isCompleted (statusOf (snd (topologyBranch clk w rtype e r sc)))"
    by (auto simp: topologyBranch_def andThen_None derivesSucceeded_def
        intro!: setCondition_then_terminal [where ?c1.0 =
          "conditionAt clk (clockReads w) MXJobRunning mxJobRunningReason
             (''MXJob '' @ Name (mxjob w) @ '' is running.'')" and s = "statusOf w"])
  then show ?thesis ..
next
  case False
  with assms show ?thesis
    using setCondition_completes [where s = "statusOf (setCompletionTime clk w)"
        and c = "conditionAt clk (clockReads (setCompletionTime clk w)) MXJobSucceeded
          mxJobSucceededReason (''MXJob '' @ Name (mxjob w) @ '' is successfully completed.'')"]
    by (auto simp: topologyBranch_def andThen_None derivesSucceeded_def split: if_splits)
qed

lemma topologyBranch_outcome:
  "isCompleted (statusOf (snd (topologyBranch clk w rtype e r sc)))
   \<or> lastIs (statusOf (snd (topologyBranch clk w rtype e r sc))) mxJobRunningReason
   \<or> lastIs (statusOf (snd (topologyBranch clk w rtype e r sc))) mxJobSucceededReason
   \<or> Conditions (statusOf (snd (topologyBranch clk w rtype e r sc))) = Conditions (statusOf w)"
proof -
  have settle: "isCompleted (setCondition s (conditionAt clk n t rsn m))
      \<or> lastIs (setCondition s (conditionAt clk n t rsn m)) rsn" for s n t rsn m
    using setCondition_settles [of "conditionAt clk n t rsn m" s] by simp
  show ?thesis
    unfolding topologyBranch_def
    by (simp add: andThen_None settle) (use settle in blast)
qed

lemma failureBranch_failed_outcome:
  assumes "0 <s f" and "\<not> restart"
  shows "isCompleted (statusOf (snd (failureBranch clk w f restart)))
       \<or> lastIs (statusOf w) mxJobFailedReason"
  using assms
    setCondition_completes [where s = "statusOf (setCompletionTime clk w)"
        and c = "conditionAt clk (clockReads (setCompletionTime clk w)) MXJobFailed
          mxJobFailedReason (''MXJob '' @ Name (mxjob w) @ '' is failed.'')"]
  by (auto simp: failureBranch_def split: if_splits)

lemma failureBranch_keeps_completed:
  "isCompleted (statusOf w) \<Longrightarrow> isCompleted (statusOf (snd (failureBranch clk w f restart)))"
  using failureBranch_completed [of w clk f restart] isCompleted_Conditions by blast

lemma derives_JobStatus_update [simp]:
  "derivesSucceeded (job\<lparr>JobStatus := x\<rparr>) rtype e sc = derivesSucceeded job rtype e sc"
  "derivesRunning (job\<lparr>JobStatus := x\<rparr>) rtype e r sc = derivesRunning job rtype e r sc"
  by (simp_all add: derivesSucceeded_def derivesRunning_def ContainSchedulerSpec_def)

subsection \<open>The timestamps\<close>

text \<open>
  When a call changes the completion time, that time was nil, and the call derives
  Succeeded (in the topology branch) or Failed (failed pods and no restart); the status
  it returns is completed, unless the lookup of \<open>setCondition\<close> took the last condition of
  the history for the terminal one.
\<close>

lemma updateStatusSingle_timestamps:
  "(StartTime (statusOf w) \<noteq> None \<longrightarrow>
      StartTime (statusOf (snd (updateStatusSingle KeyFunc clk w rtype replicas restart sc)))
        = StartTime (statusOf w))
   \<and> (CompletionTime (statusOf w) \<noteq> None \<longrightarrow>
      CompletionTime (statusOf (snd (updateStatusSingle KeyFunc clk w rtype replicas restart sc)))
        = CompletionTime (statusOf w))
   \<and> (CompletionTime (statusOf (snd (updateStatusSingle KeyFunc clk w rtype replicas restart sc)))
        \<noteq> CompletionTime (statusOf w) \<longrightarrow>
        (\<exists>rs. replicaStatus w rtype = Some rs
           \<and> (derivesSucceeded (mxjob w) rtype (replicas - scast (Succeeded rs)) sc
              \<or> 0 <s (scast (Failed rs) :: 64 word) \<and> \<not> restart))
      \<and> (isCompleted (statusOf (snd (updateStatusSingle KeyFunc clk w rtype replicas restart sc)))
         \<or> lastIs (statusOf w) mxJobSucceededReason \<or> lastIs (statusOf w) mxJobFailedReason))"
proof (cases rule: updateStatusSingle_cases
    [where KeyFunc = KeyFunc and w = w and rtype = rtype and clk = clk
       and replicas = replicas and restart = restart and sc = sc])
  case (KeyError err)
  then show ?thesis by simp
next
  case (Panic key)
  then show ?thesis by simp
next
  case (Main key rs)
  define e :: "64 word" where "e = replicas - scast (Succeeded rs)"
  define r :: "64 word" where "r = scast (Active rs)"
  define f :: "64 word" where "f = scast (Failed rs)"
  define w1 where "w1 = setStartTime clk w key"
  define wT where "wT = snd (topologyBranch clk w1 rtype e r sc)"
  define wF where "wF = snd (failureBranch clk wT f restart)"
  have result: "snd (updateStatusSingle KeyFunc clk w rtype replicas restart sc) = wF"
    using Main(3) by (simp add: wF_def wT_def w1_def e_def r_def f_def)
  have c1: "Conditions (statusOf w1) = Conditions (statusOf w)"
    and t1: "CompletionTime (statusOf w1) = CompletionTime (statusOf w)"
    by (simp_all add: w1_def)
  have start: "StartTime (statusOf wF) = StartTime (statusOf w)" if "StartTime (statusOf w) \<noteq> None"
    using that by (simp add: wF_def wT_def w1_def)
  have completion: "CompletionTime (statusOf wF) = CompletionTime (statusOf w)"
    if "CompletionTime (statusOf w) \<noteq> None"
    using that t1 topologyBranch_CompletionTime [of w1 clk rtype e r sc]
      failureBranch_CompletionTime [of wT clk f restart]
    by (simp add: wF_def wT_def)
  have assigned: "(derivesSucceeded (mxjob w) rtype e sc \<or> 0 <s f \<and> \<not> restart)
      \<and> (isCompleted (statusOf wF) \<or> lastIs (statusOf w) mxJobSucceededReason
          \<or> lastIs (statusOf w) mxJobFailedReason)"
    if changed: "CompletionTime (statusOf wF) \<noteq> CompletionTime (statusOf w)"
  proof (cases "CompletionTime (statusOf wT) = CompletionTime (statusOf w1)")
    case False
    from topologyBranch_CompletionTime_changed [OF False [unfolded wT_def]]
    have d: "derivesSucceeded (mxjob w) rtype e sc"
      by (simp add: w1_def)
    then have "derivesSucceeded (mxjob w1) rtype e sc"
      by (simp add: w1_def)
    from topologyBranch_succeeded_outcome [OF this, of clk r]
    have "isCompleted (statusOf wT) \<or> lastIs (statusOf w) mxJobSucceededReason"
      using lastIs_Conditions [OF c1] by (simp add: wT_def)
    then have "isCompleted (statusOf wF) \<or> lastIs (statusOf w) mxJobSucceededReason"
      using failureBranch_keeps_completed [of wT clk f restart] by (auto simp: wF_def)
    with d show ?thesis by blast
  next
    case True
    with changed t1 have "CompletionTime (statusOf (snd (failureBranch clk wT f restart)))
        \<noteq> CompletionTime (statusOf wT)"
      by (simp add: wF_def)
    from failureBranch_CompletionTime_changed [OF this]
    have fail: "0 <s f" "\<not> restart" by simp_all
    from failureBranch_failed_outcome [OF fail, of clk wT]
    consider "isCompleted (statusOf wF)" | "lastIs (statusOf wT) mxJobFailedReason"
      by (auto simp: wF_def)
    then have "isCompleted (statusOf wF) \<or> lastIs (statusOf w) mxJobFailedReason"
    proof cases
      case 1
      then show ?thesis ..
    next
      case 2
      from topologyBranch_outcome [of clk w1 rtype e r sc]
      consider "isCompleted (statusOf wT)" | "lastIs (statusOf wT) mxJobRunningReason"
        | "lastIs (statusOf wT) mxJobSucceededReason"
        | "Conditions (statusOf wT) = Conditions (statusOf w1)"
        by (auto simp: wT_def)
      then show ?thesis
      proof cases
        case 1
        then show ?thesis
          using failureBranch_keeps_completed [of wT clk f restart] by (simp add: wF_def)
      next
        case 2
        with \<open>lastIs (statusOf wT) mxJobFailedReason\<close> show ?thesis
          using lastIs_unique reasons_distinct by blast
      next
        case 3
        with \<open>lastIs (statusOf wT) mxJobFailedReason\<close> show ?thesis
          using lastIs_unique reasons_distinct by blast
      next
        case 4
        with c1 \<open>lastIs (statusOf wT) mxJobFailedReason\<close> show ?thesis
          by (metis lastIs_Conditions)
      qed
    qed
    with fail show ?thesis by blast
  qed
  from start completion assigned Main(2) show ?thesis
    unfolding result e_def f_def by blast
qed

text \<open>
  In a history whose conditions carry the reasons of their types, a live last condition
  with the reason of Succeeded or of Failed is a terminal condition.
\<close>

lemma reasonOf_terminal:
  "reasonOf t = mxJobSucceededReason \<longleftrightarrow> t = MXJobSucceeded"
  "reasonOf t = mxJobFailedReason \<longleftrightarrow> t = MXJobFailed"
  by (cases t; simp add: mxJobCreatedReason_def mxJobRunningReason_def mxJobRestartingReason_def
      mxJobSucceededReason_def mxJobFailedReason_def)+

lemma lastIs_terminal:
  assumes agree: "reasonsAgree s"
    and last: "lastIs s mxJobSucceededReason \<or> lastIs s mxJobFailedReason"
  shows "isCompleted s"
proof -
  from last have nonempty: "Conditions s \<noteq> []"
    and live: "Status (last (Conditions s)) = ConditionTrue"
    and reason: "Reason (last (Conditions s)) = mxJobSucceededReason
       \<or> Reason (last (Conditions s)) = mxJobFailedReason"
    by (auto simp: lastIs_def)
  from nonempty have member: "last (Conditions s) \<in> set (Conditions s)"
    by simp
  with agree have "Reason (last (Conditions s)) = reasonOf (Type (last (Conditions s)))"
    by (simp add: reasonsAgree_def)
  with reason have "Type (last (Conditions s)) = MXJobSucceeded
      \<or> Type (last (Conditions s)) = MXJobFailed"
    by (simp add: reasonOf_terminal)
  with member live show ?thesis
    unfolding isCompleted_def isFailed_def isSucceeded_def hasCondition_def hasConditionLoop_iff
    by blast
qed

text \<open>
  C4. The timestamps are set at most once. A start time that is set is never changed by
  \<open>updateStatusSingle\<close>, and neither is a completion time that is set: each is assigned
  only when it is nil. The completion time is assigned only on a transition into Succeeded
  or Failed: only by a call that derives Succeeded (in the topology branch) or Failed
  (failed pods and no restart), on a status that is not completed and that the call
  leaves completed. The two sides of the transition are read on the statuses that the
  code produces: a completed status has its completion time recorded, and every
  condition carries the reason of its type.
\<close>

theorem C4_timestamps_set_once:
  "(StartTime (statusOf w) \<noteq> None \<longrightarrow>
      StartTime (statusOf (snd (updateStatusSingle KeyFunc clk w rtype replicas restart sc)))
        = StartTime (statusOf w))
   \<and> (CompletionTime (statusOf w) \<noteq> None \<longrightarrow>
      CompletionTime (statusOf (snd (updateStatusSingle KeyFunc clk w rtype replicas restart sc)))
        = CompletionTime (statusOf w))
   \<and> (StartTime (statusOf (snd (updateStatusSingle KeyFunc clk w rtype replicas restart sc)))
        \<noteq> StartTime (statusOf w) \<longrightarrow> StartTime (statusOf w) = None)
   \<and> (CompletionTime (statusOf (snd (updateStatusSingle KeyFunc clk w rtype replicas restart sc)))
        \<noteq> CompletionTime (statusOf w) \<longrightarrow>
        CompletionTime (statusOf w) = None
      \<and> (\<exists>rs. replicaStatus w rtype = Some rs
           \<and> (derivesSucceeded (mxjob w) rtype (replicas - scast (Succeeded rs)) sc
              \<or> 0 <s (scast (Failed rs) :: 64 word) \<and> \<not> restart))
      \<and> (completionRecorded (statusOf w) \<longrightarrow> \<not> isCompleted (statusOf w))
      \<and> (completionRecorded (statusOf w) \<and> reasonsAgree (statusOf w) \<longrightarrow>
            isCompleted (statusOf (snd (updateStatusSingle KeyFunc clk w rtype replicas restart sc)))))"
proof -
  let ?w' = "snd (updateStatusSingle KeyFunc clk w rtype replicas restart sc)"
  note stamps = updateStatusSingle_timestamps [where KeyFunc = KeyFunc and clk = clk and w = w
      and rtype = rtype and replicas = replicas and restart = restart and sc = sc]
  from stamps have start: "StartTime (statusOf w) \<noteq> None \<longrightarrow>
      StartTime (statusOf ?w') = StartTime (statusOf w)"
    by blast
  from stamps have completion: "CompletionTime (statusOf w) \<noteq> None \<longrightarrow>
      CompletionTime (statusOf ?w') = CompletionTime (statusOf w)"
    by blast
  have assigned: "CompletionTime (statusOf w) = None
      \<and> (\<exists>rs. replicaStatus w rtype = Some rs
           \<and> (derivesSucceeded (mxjob w) rtype (replicas - scast (Succeeded rs)) sc
              \<or> 0 <s (scast (Failed rs) :: 64 word) \<and> \<not> restart))
      \<and> (completionRecorded (statusOf w) \<longrightarrow> \<not> isCompleted (statusOf w))
      \<and> (completionRecorded (statusOf w) \<and> reasonsAgree (statusOf w) \<longrightarrow>
            isCompleted (statusOf ?w'))"
    if changed: "CompletionTime (statusOf ?w') \<noteq> CompletionTime (statusOf w)"
  proof -
    from changed completion have nil: "CompletionTime (statusOf w) = None"
      by blast
    from changed stamps
    have derived: "\<exists>rs. replicaStatus w rtype = Some rs
           \<and> (derivesSucceeded (mxjob w) rtype (replicas - scast (Succeeded rs)) sc
              \<or> 0 <s (scast (Failed rs) :: 64 word) \<and> \<not> restart)"
      and outcome: "isCompleted (statusOf ?w') \<or> lastIs (statusOf w) mxJobSucceededReason
          \<or> lastIs (statusOf w) mxJobFailedReason"
      by blast+
    have before: "\<not> isCompleted (statusOf w)" if "completionRecorded (statusOf w)"
      using that nil by (simp add: completionRecorded_def)
    have after: "isCompleted (statusOf ?w')"
      if "completionRecorded (statusOf w)" and agree: "reasonsAgree (statusOf w)"
      using outcome before [OF that(1)] lastIs_terminal [OF agree] by blast
    from nil derived before after show ?thesis
      by blast
  qed
  from start completion assigned show ?thesis
    by blast
qed

text \<open>
  Three workers, all succeeded, on a started job without conditions: the call assigns the
  completion time, on a status that is not completed and that it leaves completed; the
  start time stays as it was.
\<close>

theorem C4_timestamps_set_once_witness:
  "completionRecorded (statusOf (withCounts (exampleWorld (exampleJob workerSpec (exampleStatus []))) MXReplicaTypeWorker 0 3 0))
   \<and> reasonsAgree (statusOf (withCounts (exampleWorld (exampleJob workerSpec (exampleStatus []))) MXReplicaTypeWorker 0 3 0))
   \<and> CompletionTime (statusOf (withCounts (exampleWorld (exampleJob workerSpec (exampleStatus []))) MXReplicaTypeWorker 0 3 0)) = None
   \<and> CompletionTime (statusOf (snd (updateStatusSingle exampleKeyFunc exampleClock
        (withCounts (exampleWorld (exampleJob workerSpec (exampleStatus []))) MXReplicaTypeWorker 0 3 0)
        MXReplicaTypeWorker 3 False False))) = Some 100
   \<and> StartTime (statusOf (snd (updateStatusSingle exampleKeyFunc exampleClock
        (withCounts (exampleWorld (exampleJob workerSpec (exampleStatus []))) MXReplicaTypeWorker 0 3 0)
        MXReplicaTypeWorker 3 False False))) = Some 0
   \<and> \<not> isCompleted (statusOf (withCounts (exampleWorld (exampleJob workerSpec (exampleStatus []))) MXReplicaTypeWorker 0 3 0))
   \<and> isCompleted (statusOf (snd (updateStatusSingle exampleKeyFunc exampleClock
        (withCounts (exampleWorld (exampleJob workerSpec (exampleStatus []))) MXReplicaTypeWorker 0 3 0)
        MXReplicaTypeWorker 3 False False)))"
proof -
  let ?w = "withCounts (exampleWorld (exampleJob workerSpec (exampleStatus []))) MXReplicaTypeWorker 0 3 0"
  let ?w' = "snd (updateStatusSingle exampleKeyFunc exampleClock ?w MXReplicaTypeWorker 3 False False)"
  have after: "CompletionTime (statusOf ?w') = Some 100"
    by (simp add: example_defs code_defs)
  have before: "CompletionTime (statusOf ?w) = None"
    by (simp add: example_defs)
  have started: "StartTime (statusOf ?w) = Some 0"
    by (simp add: example_defs)
  have recorded: "completionRecorded (statusOf ?w)"
    by (simp add: example_defs completionRecorded_def isCompleted_def isFailed_def isSucceeded_def
        hasCondition_def)
  have agree: "reasonsAgree (statusOf ?w)"
    by (simp add: example_defs reasonsAgree_def)
  from after before have changed: "CompletionTime (statusOf ?w') \<noteq> CompletionTime (statusOf ?w)"
    by simp
  from C4_timestamps_set_once
    [where KeyFunc = exampleKeyFunc and clk = exampleClock and rtype = MXReplicaTypeWorker
       and replicas = 3 and restart = False and sc = False and w = ?w]
  have "StartTime (statusOf ?w) \<noteq> None \<longrightarrow> StartTime (statusOf ?w') = StartTime (statusOf ?w)"
    and "CompletionTime (statusOf ?w') \<noteq> CompletionTime (statusOf ?w) \<longrightarrow>
         (completionRecorded (statusOf ?w) \<longrightarrow> \<not> isCompleted (statusOf ?w))
         \<and> (completionRecorded (statusOf ?w) \<and> reasonsAgree (statusOf ?w) \<longrightarrow>
              isCompleted (statusOf ?w'))"
    by blast+
  with changed started recorded agree
  have "StartTime (statusOf ?w') = Some 0" "\<not> isCompleted (statusOf ?w)" "isCompleted (statusOf ?w')"
    by simp_all
  with recorded agree before after show ?thesis
    by simp
qed

subsection \<open>Groups that the topology branch does not match\<close>

text \<open>
  C8, as amended. When the replica type is not one the topology branch looks at (any type
  but Scheduler in a job with a scheduler role, any type but Worker and Tuner in a job
  without), that branch derives nothing: once the key of the job is resolved and the
  counters of the group are read, the call sets the start time if it is nil, runs the
  failure branch, and returns nil. So the call leaves the conditions and the completion
  time as they are when the group has no failed pod; with failed pods the failure branch
  still applies Restarting or Failed.
\<close>

theorem C8_unmatched_group:
  assumes "if ContainSchedulerSpec (mxjob w) then rtype \<noteq> MXReplicaTypeScheduler
           else rtype \<noteq> MXReplicaTypeWorker \<and> rtype \<noteq> MXReplicaTypeTuner"
  shows "(\<forall>key rs. KeyFunc (mxjob w) = Inr key \<and> replicaStatus w rtype = Some rs \<longrightarrow>
            updateStatusSingle KeyFunc clk w rtype replicas restart sc
              = failureBranch clk (setStartTime clk w key) (scast (Failed rs)) restart
          \<and> fst (updateStatusSingle KeyFunc clk w rtype replicas restart sc) = None)
       \<and> ((\<forall>rs. replicaStatus w rtype = Some rs \<longrightarrow> \<not> 0 <s (scast (Failed rs) :: 64 word)) \<longrightarrow>
            Conditions (statusOf (snd (updateStatusSingle KeyFunc clk w rtype replicas restart sc)))
              = Conditions (statusOf w)
          \<and> CompletionTime (statusOf (snd (updateStatusSingle KeyFunc clk w rtype replicas restart sc)))
              = CompletionTime (statusOf w))"
proof (cases rule: updateStatusSingle_cases
    [where KeyFunc = KeyFunc and w = w and rtype = rtype and clk = clk
       and replicas = replicas and restart = restart and sc = sc])
  case (KeyError err)
  then show ?thesis by simp
next
  case (Panic key)
  then show ?thesis by simp
next
  case (Main key rs)
  from assms have "\<not> derivesRunning (mxjob (setStartTime clk w key)) rtype
        (replicas - scast (Succeeded rs)) (scast (Active rs)) sc"
    and "\<not> derivesSucceeded (mxjob (setStartTime clk w key)) rtype
        (replicas - scast (Succeeded rs)) sc"
    by (auto simp: derivesRunning_def derivesSucceeded_def ContainSchedulerSpec_def)
  then have "topologyBranch clk (setStartTime clk w key) rtype
        (replicas - scast (Succeeded rs)) (scast (Active rs)) sc = (None, setStartTime clk w key)"
    by (rule topologyBranch_idle)
  with Main(3) have result: "updateStatusSingle KeyFunc clk w rtype replicas restart sc
      = failureBranch clk (setStartTime clk w key) (scast (Failed rs)) restart"
    by simp
  have "Conditions (statusOf (snd (updateStatusSingle KeyFunc clk w rtype replicas restart sc)))
          = Conditions (statusOf w)
      \<and> CompletionTime (statusOf (snd (updateStatusSingle KeyFunc clk w rtype replicas restart sc)))
          = CompletionTime (statusOf w)"
    if "\<not> 0 <s (scast (Failed rs) :: 64 word)"
    unfolding result failureBranch_idle [OF that] by simp
  with Main(1,2) result show ?thesis by simp
qed

text \<open>
  The claim as stated fails when the group has a failed pod: in a job with a scheduler
  role, the worker group with one failed pod and no restart gets a Failed condition and a
  completion time from the failure branch.
\<close>

theorem C8_unmatched_group_counterexample:
  "ContainSchedulerSpec (mxjob (withCounts (exampleWorld (exampleJob schedulerSpec (exampleStatus []))) MXReplicaTypeWorker 2 0 1))
   \<and> CompletionTime (statusOf (withCounts (exampleWorld (exampleJob schedulerSpec (exampleStatus []))) MXReplicaTypeWorker 2 0 1)) = None
   \<and> Conditions (statusOf (withCounts (exampleWorld (exampleJob schedulerSpec (exampleStatus []))) MXReplicaTypeWorker 2 0 1)) = []
   \<and> CompletionTime (statusOf (snd (updateStatusSingle exampleKeyFunc exampleClock
        (withCounts (exampleWorld (exampleJob schedulerSpec (exampleStatus []))) MXReplicaTypeWorker 2 0 1)
        MXReplicaTypeWorker 3 False False))) = Some 100
   \<and> Conditions (statusOf (snd (updateStatusSingle exampleKeyFunc exampleClock
        (withCounts (exampleWorld (exampleJob schedulerSpec (exampleStatus []))) MXReplicaTypeWorker 2 0 1)
        MXReplicaTypeWorker 3 False False)))
     = [\<lparr>Type = MXJobFailed, Status = ConditionTrue, Reason = ''MXJobFailed'',
         Message = ''MXJob mxjob is failed.'', LastUpdateTime = 101, LastTransitionTime = 102\<rparr>]"
  by (simp add: example_defs code_defs)

theorem C8_unmatched_group_witness:
  "(if ContainSchedulerSpec (mxjob (withCounts (exampleWorld (exampleJob schedulerSpec (exampleStatus []))) MXReplicaTypeWorker 2 0 0))
    then MXReplicaTypeWorker \<noteq> MXReplicaTypeScheduler
    else MXReplicaTypeWorker \<noteq> MXReplicaTypeWorker \<and> MXReplicaTypeWorker \<noteq> MXReplicaTypeTuner)
   \<and> Conditions (statusOf (snd (updateStatusSingle exampleKeyFunc exampleClock
        (withCounts (exampleWorld (exampleJob schedulerSpec (exampleStatus []))) MXReplicaTypeWorker 2 0 0)
        MXReplicaTypeWorker 3 False False))) = []
   \<and> CompletionTime (statusOf (snd (updateStatusSingle exampleKeyFunc exampleClock
        (withCounts (exampleWorld (exampleJob schedulerSpec (exampleStatus []))) MXReplicaTypeWorker 2 0 0)
        MXReplicaTypeWorker 3 False False))) = None"
proof -
  have unmatched: "if ContainSchedulerSpec (mxjob (withCounts (exampleWorld (exampleJob schedulerSpec (exampleStatus []))) MXReplicaTypeWorker 2 0 0))
    then MXReplicaTypeWorker \<noteq> MXReplicaTypeScheduler
    else MXReplicaTypeWorker \<noteq> MXReplicaTypeWorker \<and> MXReplicaTypeWorker \<noteq> MXReplicaTypeTuner"
    by (simp add: example_defs ContainSchedulerSpec_def)
  have none_failed: "\<forall>rs. replicaStatus (withCounts (exampleWorld (exampleJob schedulerSpec (exampleStatus []))) MXReplicaTypeWorker 2 0 0) MXReplicaTypeWorker = Some rs
       \<longrightarrow> \<not> 0 <s (scast (Failed rs) :: 64 word)"
    by (auto simp: example_defs word_sless_alt)
  have before: "Conditions (statusOf (withCounts (exampleWorld (exampleJob schedulerSpec (exampleStatus []))) MXReplicaTypeWorker 2 0 0)) = []"
    "CompletionTime (statusOf (withCounts (exampleWorld (exampleJob schedulerSpec (exampleStatus []))) MXReplicaTypeWorker 2 0 0)) = None"
    by (simp_all add: example_defs)
  from C8_unmatched_group [OF unmatched, where KeyFunc = exampleKeyFunc and clk = exampleClock
      and replicas = 3 and restart = False and sc = False] none_failed unmatched
  show ?thesis
    unfolding before by blast
qed

subsection \<open>Completion of a job without a scheduler\<close>

lemma ContainSchedulerSpec_JobStatus_update [simp]:
  "ContainSchedulerSpec (job\<lparr>JobStatus := x\<rparr>) = ContainSchedulerSpec job"
  by (simp add: ContainSchedulerSpec_def)

lemma setCondition_empty: "Conditions s = [] \<Longrightarrow> Conditions (setCondition s c) = [c]"
  by (simp add: setCondition_def getCondition_def isFailed_def isSucceeded_def hasCondition_def)

lemma isCompleted_single:
  "Conditions s = [c] \<Longrightarrow> Status c = ConditionTrue \<Longrightarrow>
     Type c = MXJobSucceeded \<or> Type c = MXJobFailed \<Longrightarrow> isCompleted s"
  by (auto simp: isCompleted_def isFailed_def isSucceeded_def hasCondition_def)

lemma setCondition_succeeds:
  assumes "Type c = MXJobSucceeded" and "Status c = ConditionTrue"
  shows "isSucceeded (setCondition s c) \<or> isFailed s \<or> lastIs s (Reason c)"
proof (cases "setCondition s c = s")
  case True
  with assms show ?thesis
    using setCondition_changed_iff [of s c] by (auto simp: lastIs_def isCompleted_def)
next
  case False
  from setCondition_inserted [OF False] obtain t where
    "Conditions (setCondition s c) = filterOutCondition (Conditions s) (Type c) @ [c\<lparr>LastTransitionTime := t\<rparr>]"
    by blast
  with assms have "isSucceeded (setCondition s c)"
    by (auto simp: isSucceeded_def hasCondition_def hasConditionLoop_iff)
  then show ?thesis ..
qed

lemma failureBranch_keeps_succeeded:
  assumes "isSucceeded (statusOf w)"
  shows "isSucceeded (statusOf (snd (failureBranch clk w f restart)))"
proof -
  from assms have "isCompleted (statusOf w)" by (simp add: isCompleted_def)
  from failureBranch_completed [OF this, of clk f restart] assms show ?thesis
    by (simp add: isSucceeded_def hasCondition_def)
qed

text \<open>
  C5. In a job without a scheduler role, for the Worker or the Tuner group (the key of the
  job resolved and the counters of the group read): if \<open>expected\<close>, the group size minus the
  succeeded count, is 0 or \<open>schedulerCompleted\<close> is true, \<open>updateStatusSingle\<close> sets the
  completion time if it is nil and applies a Succeeded condition (then comes the failure
  branch): the completion time is set afterwards, unchanged if it was set before; the
  status holds a live Succeeded condition afterwards unless it was already failed or its
  last condition already carried the reason of Succeeded; and from an empty history the
  conditions become exactly the new Succeeded condition. Otherwise, if the active count is
  positive, it applies a Running condition: with no failed pod the completion time is
  untouched, and from an empty history the conditions become exactly the new Running
  condition.
\<close>

theorem C5_schedulerless_completion:
  assumes "KeyFunc (mxjob w) = Inr key" and "replicaStatus w rtype = Some rs"
    and "\<not> ContainSchedulerSpec (mxjob w)"
    and "rtype = MXReplicaTypeWorker \<or> rtype = MXReplicaTypeTuner"
  shows "(replicas - scast (Succeeded rs) = 0 \<or> sc \<longrightarrow>
            updateStatusSingle KeyFunc clk w rtype replicas restart sc
              = failureBranch clk
                  (snd (updateMXJobConditions clk (setCompletionTime clk (setStartTime clk w key))
                     MXJobSucceeded mxJobSucceededReason
                     (''MXJob '' @ Name (mxjob w) @ '' is successfully completed.'')))
                  (scast (Failed rs)) restart
          \<and> CompletionTime (statusOf (snd (updateStatusSingle KeyFunc clk w rtype replicas restart sc)))
              \<noteq> None
          \<and> (CompletionTime (statusOf w) \<noteq> None \<longrightarrow>
               CompletionTime (statusOf (snd (updateStatusSingle KeyFunc clk w rtype replicas restart sc)))
                 = CompletionTime (statusOf w))
          \<and> (isSucceeded (statusOf (snd (updateStatusSingle KeyFunc clk w rtype replicas restart sc)))
              \<or> isFailed (statusOf w) \<or> lastIs (statusOf w) mxJobSucceededReason)
          \<and> (Conditions (statusOf w) = [] \<longrightarrow>
               Conditions (statusOf (snd (updateStatusSingle KeyFunc clk w rtype replicas restart sc)))
                 = [conditionAt clk (clockReads (setCompletionTime clk (setStartTime clk w key)))
                      MXJobSucceeded mxJobSucceededReason
                      (''MXJob '' @ Name (mxjob w) @ '' is successfully completed.'')]))
       \<and> (\<not> (replicas - scast (Succeeded rs) = 0 \<or> sc) \<and> 0 <s (scast (Active rs) :: 64 word) \<longrightarrow>
            updateStatusSingle KeyFunc clk w rtype replicas restart sc
              = failureBranch clk
                  (snd (updateMXJobConditions clk (setStartTime clk w key)
                     MXJobRunning mxJobRunningReason (''MXJob '' @ Name (mxjob w) @ '' is running.'')))
                  (scast (Failed rs)) restart
          \<and> (\<not> 0 <s (scast (Failed rs) :: 64 word) \<longrightarrow>
               CompletionTime (statusOf (snd (updateStatusSingle KeyFunc clk w rtype replicas restart sc)))
                 = CompletionTime (statusOf w)
             \<and> (Conditions (statusOf w) = [] \<longrightarrow>
                  Conditions (statusOf (snd (updateStatusSingle KeyFunc clk w rtype replicas restart sc)))
                    = [conditionAt clk (clockReads (setStartTime clk w key))
                         MXJobRunning mxJobRunningReason
                         (''MXJob '' @ Name (mxjob w) @ '' is running.'')])))"
proof -
  let ?e = "replicas - scast (Succeeded rs) :: 64 word"
  let ?f = "scast (Failed rs) :: 64 word"
  let ?w1 = "setStartTime clk w key"
  let ?msgS = "''MXJob '' @ Name (mxjob w) @ '' is successfully completed.''"
  let ?msgR = "''MXJob '' @ Name (mxjob w) @ '' is running.''"
  let ?wS = "snd (updateMXJobConditions clk (setCompletionTime clk ?w1) MXJobSucceeded
                mxJobSucceededReason ?msgS)"
  let ?wR = "snd (updateMXJobConditions clk ?w1 MXJobRunning mxJobRunningReason ?msgR)"
  let ?cS = "conditionAt clk (clockReads (setCompletionTime clk ?w1)) MXJobSucceeded
                mxJobSucceededReason ?msgS"
  let ?w' = "snd (updateStatusSingle KeyFunc clk w rtype replicas restart sc)"
  note main = updateStatusSingle_main [where KeyFunc = KeyFunc and w = w and clk = clk
      and replicas = replicas and restart = restart and sc = sc, OF assms(1,2)]
  have succeeded: "updateStatusSingle KeyFunc clk w rtype replicas restart sc
        = failureBranch clk ?wS ?f restart
      \<and> CompletionTime (statusOf ?w') \<noteq> None
      \<and> (CompletionTime (statusOf w) \<noteq> None \<longrightarrow>
            CompletionTime (statusOf ?w') = CompletionTime (statusOf w))
      \<and> (isSucceeded (statusOf ?w') \<or> isFailed (statusOf w)
            \<or> lastIs (statusOf w) mxJobSucceededReason)
      \<and> (Conditions (statusOf w) = [] \<longrightarrow> Conditions (statusOf ?w') = [?cS])"
    if branch: "?e = 0 \<or> sc"
  proof -
    from assms(3,4) branch have
      topo: "topologyBranch clk ?w1 rtype ?e (scast (Active rs)) sc
               = updateMXJobConditions clk (setCompletionTime clk ?w1) MXJobSucceeded
                   mxJobSucceededReason ?msgS"
      by (auto simp: topologyBranch_def)
    with main have result: "updateStatusSingle KeyFunc clk w rtype replicas restart sc
        = failureBranch clk ?wS ?f restart"
      by simp
    define w2 where "w2 = setCompletionTime clk ?w1"
    define cS where "cS = conditionAt clk (clockReads w2) MXJobSucceeded mxJobSucceededReason ?msgS"
    define wS where "wS = snd (updateMXJobConditions clk w2 MXJobSucceeded mxJobSucceededReason ?msgS)"
    have statusS: "statusOf wS = setCondition (statusOf w2) cS"
      by (simp add: wS_def cS_def)
    have frame: "Conditions (statusOf w2) = Conditions (statusOf w)"
      by (simp add: w2_def)
    have timeS: "CompletionTime (statusOf wS) \<noteq> None"
      and keptS: "CompletionTime (statusOf w) \<noteq> None \<longrightarrow>
        CompletionTime (statusOf wS) = CompletionTime (statusOf w)"
      unfolding statusS by (auto simp: w2_def)
    have time: "CompletionTime (statusOf (snd (failureBranch clk wS ?f restart)))
        = CompletionTime (statusOf wS)"
      using failureBranch_CompletionTime [OF timeS] .
    from setCondition_succeeds [of cS "statusOf w2"]
    consider "isSucceeded (statusOf wS)" | "isFailed (statusOf w2)"
      | "lastIs (statusOf w2) mxJobSucceededReason"
      unfolding statusS by (auto simp: cS_def)
    then have landed: "isSucceeded (statusOf (snd (failureBranch clk wS ?f restart)))
        \<or> isFailed (statusOf w) \<or> lastIs (statusOf w) mxJobSucceededReason"
    proof cases
      case 1
      then show ?thesis using failureBranch_keeps_succeeded by blast
    next
      case 2
      with frame have "isFailed (statusOf w)"
        by (simp add: isFailed_def hasCondition_def)
      then show ?thesis by blast
    next
      case 3
      with frame have "lastIs (statusOf w) mxJobSucceededReason"
        using lastIs_Conditions by blast
      then show ?thesis by blast
    qed
    have fresh: "Conditions (statusOf (snd (failureBranch clk wS ?f restart))) = [cS]"
      if "Conditions (statusOf w) = []"
    proof -
      from that frame have "Conditions (statusOf w2) = []" by simp
      then have one: "Conditions (statusOf wS) = [cS]"
        unfolding statusS by (rule setCondition_empty)
      then have "isCompleted (statusOf wS)"
        by (rule isCompleted_single) (simp_all add: cS_def)
      from failureBranch_completed [OF this] one show ?thesis
        by simp
    qed
    from time timeS keptS landed fresh show ?thesis
      unfolding result wS_def [symmetric, unfolded w2_def] cS_def w2_def by simp
  qed
  have running: "updateStatusSingle KeyFunc clk w rtype replicas restart sc
        = failureBranch clk ?wR ?f restart
      \<and> (\<not> 0 <s ?f \<longrightarrow>
            CompletionTime (statusOf ?w') = CompletionTime (statusOf w)
          \<and> (Conditions (statusOf w) = [] \<longrightarrow>
               Conditions (statusOf ?w')
                 = [conditionAt clk (clockReads ?w1) MXJobRunning mxJobRunningReason ?msgR]))"
    if branch: "\<not> (?e = 0 \<or> sc)" "0 <s (scast (Active rs) :: 64 word)"
  proof -
    from assms(3,4) branch have
      topo: "topologyBranch clk ?w1 rtype ?e (scast (Active rs)) sc
               = updateMXJobConditions clk ?w1 MXJobRunning mxJobRunningReason ?msgR"
      by (auto simp: topologyBranch_def)
    with main have result: "updateStatusSingle KeyFunc clk w rtype replicas restart sc
        = failureBranch clk ?wR ?f restart"
      by simp
    have "CompletionTime (statusOf ?w') = CompletionTime (statusOf w)
        \<and> (Conditions (statusOf w) = [] \<longrightarrow>
             Conditions (statusOf ?w')
               = [conditionAt clk (clockReads ?w1) MXJobRunning mxJobRunningReason ?msgR])"
      if "\<not> 0 <s ?f"
      unfolding result failureBranch_idle [OF that]
      by (auto simp: setCondition_empty)
    with result show ?thesis by simp
  qed
  from succeeded running show ?thesis by blast
qed

text \<open>
  The scenario of the claim: a worker group of size 3 with 3 succeeded pods, none active
  and none failed, on an empty history.
\<close>

theorem C5_schedulerless_completion_witness:
  "\<not> ContainSchedulerSpec (mxjob (withCounts (exampleWorld (exampleJob workerSpec (exampleStatus []))) MXReplicaTypeWorker 0 3 0))
   \<and> Conditions (statusOf (snd (updateStatusSingle exampleKeyFunc exampleClock
        (withCounts (exampleWorld (exampleJob workerSpec (exampleStatus []))) MXReplicaTypeWorker 0 3 0)
        MXReplicaTypeWorker 3 False False)))
     = [\<lparr>Type = MXJobSucceeded, Status = ConditionTrue, Reason = ''MXJobSucceeded'',
         Message = ''MXJob mxjob is successfully completed.'',
         LastUpdateTime = 101, LastTransitionTime = 102\<rparr>]
   \<and> CompletionTime (statusOf (snd (updateStatusSingle exampleKeyFunc exampleClock
        (withCounts (exampleWorld (exampleJob workerSpec (exampleStatus []))) MXReplicaTypeWorker 0 3 0)
        MXReplicaTypeWorker 3 False False))) \<noteq> None"
proof -
  let ?w = "withCounts (exampleWorld (exampleJob workerSpec (exampleStatus []))) MXReplicaTypeWorker 0 3 0"
  have key: "exampleKeyFunc (mxjob ?w) = Inr ''default/mxjob''"
    by (simp add: example_defs)
  have counters: "replicaStatus ?w MXReplicaTypeWorker
      = Some \<lparr>Active = 0, Succeeded = 3, Failed = 0\<rparr>"
    by (simp add: example_defs)
  have topology: "\<not> ContainSchedulerSpec (mxjob ?w)"
    by (simp add: example_defs ContainSchedulerSpec_def)
  have group: "MXReplicaTypeWorker = MXReplicaTypeWorker \<or> MXReplicaTypeWorker = MXReplicaTypeTuner"
    by simp
  have expected: "(3 :: 64 word) - scast (Succeeded \<lparr>Active = 0, Succeeded = 3, Failed = 0\<rparr>) = 0"
    by simp
  have empty: "Conditions (statusOf ?w) = []"
    by (simp add: example_defs)
  have reads: "clockReads (setCompletionTime exampleClock (setStartTime exampleClock ?w ''default/mxjob''))
      = 1"
    by (simp add: example_defs)
  have condition: "conditionAt exampleClock 1 MXJobSucceeded mxJobSucceededReason
        (''MXJob '' @ Name (mxjob ?w) @ '' is successfully completed.'')
      = \<lparr>Type = MXJobSucceeded, Status = ConditionTrue, Reason = ''MXJobSucceeded'',
         Message = ''MXJob mxjob is successfully completed.'',
         LastUpdateTime = 101, LastTransitionTime = 102\<rparr>"
    by (simp add: conditionAt_def example_defs mxJobSucceededReason_def)
  from C5_schedulerless_completion [where KeyFunc = exampleKeyFunc and w = ?w and clk = exampleClock
      and replicas = 3 and restart = False and sc = False, OF key counters topology group]
    expected empty
  have "Conditions (statusOf (snd (updateStatusSingle exampleKeyFunc exampleClock ?w
            MXReplicaTypeWorker 3 False False)))
          = [conditionAt exampleClock
               (clockReads (setCompletionTime exampleClock (setStartTime exampleClock ?w ''default/mxjob'')))
               MXJobSucceeded mxJobSucceededReason
               (''MXJob '' @ Name (mxjob ?w) @ '' is successfully completed.'')]
      \<and> CompletionTime (statusOf (snd (updateStatusSingle exampleKeyFunc exampleClock ?w
            MXReplicaTypeWorker 3 False False))) \<noteq> None"
    by blast
  with topology show ?thesis
    unfolding reads condition by blast
qed

subsection \<open>The failure branch\<close>

lemma topologyBranch_only_status:
  "mxjob (snd (topologyBranch clk w rtype e r sc))
     = (mxjob w)\<lparr>JobStatus := statusOf (snd (topologyBranch clk w rtype e r sc))\<rparr>"
  by (simp add: topologyBranch_def andThen_None)

lemma failureBranch_only_status:
  "mxjob (snd (failureBranch clk w f restart))
     = (mxjob w)\<lparr>JobStatus := statusOf (snd (failureBranch clk w f restart))\<rparr>"
  by (simp add: failureBranch_def)

lemma topologyBranch_Name [simp]:
  "Name (mxjob (snd (topologyBranch clk w rtype e r sc))) = Name (mxjob w)"
  by (subst topologyBranch_only_status) simp

text \<open>A condition of a type that is not terminal does not complete a status.\<close>

lemma setCondition_not_completed:
  assumes "\<not> isCompleted s" and "Type c \<noteq> MXJobSucceeded" and "Type c \<noteq> MXJobFailed"
  shows "\<not> isCompleted (setCondition s c)"
proof (cases "setCondition s c = s")
  case True
  with assms(1) show ?thesis by simp
next
  case False
  from setCondition_inserted [OF False] obtain t where
    eq: "Conditions (setCondition s c) = filterOutCondition (Conditions s) (Type c) @ [c\<lparr>LastTransitionTime := t\<rparr>]"
    by blast
  from assms show ?thesis
    unfolding isCompleted_def isFailed_def isSucceeded_def hasCondition_def hasConditionLoop_iff
      eq filterOutCondition_map_filter
    by auto
qed

lemma setCondition_restarting_over:
  assumes "\<not> isCompleted s" and "lastIs s r" and "r \<noteq> Reason c"
    and "Status c = ConditionTrue" and "Type c = MXJobRestarting"
  shows "(\<forall>x\<in>set (Conditions (setCondition s c)). Type x \<noteq> MXJobRunning)
       \<and> Type (last (Conditions (setCondition s c))) = MXJobRestarting
       \<and> Status (last (Conditions (setCondition s c))) = ConditionTrue"
proof -
  from assms(1-3) have "setCondition s c \<noteq> s"
    unfolding setCondition_changed_iff by (auto simp: lastIs_def)
  from setCondition_inserted [OF this] obtain t where
    "Conditions (setCondition s c) = filterOutCondition (Conditions s) (Type c) @ [c\<lparr>LastTransitionTime := t\<rparr>]"
    by blast
  with assms(4,5) show ?thesis
    by (auto simp: filterOutCondition_map_filter)
qed

lemma setCondition_failed_over:
  assumes "\<not> isCompleted s" and "lastIs s r" and "r \<noteq> Reason c"
    and "Status c = ConditionTrue" and "Type c = MXJobFailed"
  shows "(\<forall>x\<in>set (Conditions (setCondition s c)). Type x = MXJobRunning \<longrightarrow> Status x = ConditionFalse)
       \<and> Type (last (Conditions (setCondition s c))) = MXJobFailed
       \<and> Status (last (Conditions (setCondition s c))) = ConditionTrue
       \<and> isFailed (setCondition s c)"
proof -
  from assms(1-3) have "setCondition s c \<noteq> s"
    unfolding setCondition_changed_iff by (auto simp: lastIs_def)
  from setCondition_inserted [OF this] obtain t where
    "Conditions (setCondition s c) = filterOutCondition (Conditions s) (Type c) @ [c\<lparr>LastTransitionTime := t\<rparr>]"
    by blast
  with assms(4,5) show ?thesis
    by (auto simp: filterOutCondition_map_filter isFailed_def hasCondition_def hasConditionLoop_iff)
qed

text \<open>The topology branch, when it applies Running alone to a status that is not completed.\<close>

lemma topologyBranch_running_outcome:
  assumes "\<not> isCompleted (statusOf w)" and "derivesRunning (mxjob w) rtype e r sc"
    and "\<not> derivesSucceeded (mxjob w) rtype e sc"
  shows "\<not> isCompleted (statusOf (snd (topologyBranch clk w rtype e r sc)))
       \<and> lastIs (statusOf (snd (topologyBranch clk w rtype e r sc))) mxJobRunningReason"
proof -
  let ?c = "conditionAt clk (clockReads w) MXJobRunning mxJobRunningReason
              (''MXJob '' @ Name (mxjob w) @ '' is running.'')"
  from assms(2,3) have eq: "statusOf (snd (topologyBranch clk w rtype e r sc))
      = setCondition (statusOf w) ?c"
    by (auto simp: topologyBranch_def andThen_None derivesRunning_def derivesSucceeded_def
        split: if_splits)
  have open': "\<not> isCompleted (setCondition (statusOf w) ?c)"
    using assms(1) by (rule setCondition_not_completed) simp_all
  with setCondition_settles [of ?c "statusOf w"] show ?thesis
    unfolding eq by simp
qed

text \<open>
  C6, as amended. When the failed count of the group is positive, the failure branch runs
  after the topology branch, on the status that branch has left: with \<open>restart\<close> it applies
  Restarting and does not touch the completion time, without \<open>restart\<close> it sets the
  completion time if it is nil and applies Failed. It overrides a Running condition that
  the topology branch has just applied to a status that was not completed: Restarting
  removes every Running entry, Failed sets the status of every Running entry to false and
  makes the job failed. It does not override a Succeeded condition: whenever the status is
  completed after the topology branch, in particular once that branch has inserted
  Succeeded, the failure branch leaves the history as it is.
\<close>

theorem C6_failure_branch:
  assumes "KeyFunc (mxjob w) = Inr key" and "replicaStatus w rtype = Some rs"
    and "0 <s (scast (Failed rs) :: 64 word)"
  shows "(restart \<longrightarrow>
            updateStatusSingle KeyFunc clk w rtype replicas restart sc
              = updateMXJobConditions clk (afterTopology clk w key rtype replicas rs sc)
                  MXJobRestarting mxJobRestartingReason
                  (''MXJob '' @ Name (mxjob w) @ '' is restarting.'')
          \<and> CompletionTime (statusOf (snd (updateStatusSingle KeyFunc clk w rtype replicas restart sc)))
              = CompletionTime (statusOf (afterTopology clk w key rtype replicas rs sc)))
       \<and> (\<not> restart \<longrightarrow>
            updateStatusSingle KeyFunc clk w rtype replicas restart sc
              = updateMXJobConditions clk
                  (setCompletionTime clk (afterTopology clk w key rtype replicas rs sc))
                  MXJobFailed mxJobFailedReason (''MXJob '' @ Name (mxjob w) @ '' is failed.'')
          \<and> CompletionTime (statusOf (snd (updateStatusSingle KeyFunc clk w rtype replicas restart sc)))
              \<noteq> None
          \<and> (CompletionTime (statusOf (afterTopology clk w key rtype replicas rs sc)) \<noteq> None \<longrightarrow>
               CompletionTime (statusOf (snd (updateStatusSingle KeyFunc clk w rtype replicas restart sc)))
                 = CompletionTime (statusOf (afterTopology clk w key rtype replicas rs sc))))
       \<and> (\<not> isCompleted (statusOf w)
          \<and> derivesRunning (mxjob w) rtype (replicas - scast (Succeeded rs)) (scast (Active rs)) sc
          \<and> \<not> derivesSucceeded (mxjob w) rtype (replicas - scast (Succeeded rs)) sc \<longrightarrow>
            (restart \<longrightarrow>
               (\<forall>c\<in>set (Conditions (statusOf
                    (snd (updateStatusSingle KeyFunc clk w rtype replicas restart sc)))).
                  Type c \<noteq> MXJobRunning)
             \<and> Type (last (Conditions (statusOf
                  (snd (updateStatusSingle KeyFunc clk w rtype replicas restart sc)))))
                 = MXJobRestarting
             \<and> Status (last (Conditions (statusOf
                  (snd (updateStatusSingle KeyFunc clk w rtype replicas restart sc)))))
                 = ConditionTrue)
          \<and> (\<not> restart \<longrightarrow>
               (\<forall>c\<in>set (Conditions (statusOf
                    (snd (updateStatusSingle KeyFunc clk w rtype replicas restart sc)))).
                  Type c = MXJobRunning \<longrightarrow> Status c = ConditionFalse)
             \<and> Type (last (Conditions (statusOf
                  (snd (updateStatusSingle KeyFunc clk w rtype replicas restart sc)))))
                 = MXJobFailed
             \<and> Status (last (Conditions (statusOf
                  (snd (updateStatusSingle KeyFunc clk w rtype replicas restart sc)))))
                 = ConditionTrue
             \<and> isFailed (statusOf (snd (updateStatusSingle KeyFunc clk w rtype replicas restart sc)))))
       \<and> (isCompleted (statusOf (afterTopology clk w key rtype replicas rs sc)) \<longrightarrow>
            Conditions (statusOf (snd (updateStatusSingle KeyFunc clk w rtype replicas restart sc)))
              = Conditions (statusOf (afterTopology clk w key rtype replicas rs sc)))
       \<and> (derivesSucceeded (mxjob w) rtype (replicas - scast (Succeeded rs)) sc
          \<and> \<not> lastIs (statusOf w) mxJobSucceededReason \<longrightarrow>
            isCompleted (statusOf (afterTopology clk w key rtype replicas rs sc))
          \<and> Conditions (statusOf (snd (updateStatusSingle KeyFunc clk w rtype replicas restart sc)))
              = Conditions (statusOf (afterTopology clk w key rtype replicas rs sc)))"
proof -
  define e :: "64 word" where "e = replicas - scast (Succeeded rs)"
  define r :: "64 word" where "r = scast (Active rs)"
  define f :: "64 word" where "f = scast (Failed rs)"
  define w1 where "w1 = setStartTime clk w key"
  define wT where "wT = snd (topologyBranch clk w1 rtype e r sc)"
  define cR where "cR = conditionAt clk (clockReads wT) MXJobRestarting mxJobRestartingReason
      (''MXJob '' @ Name (mxjob w) @ '' is restarting.'')"
  define wC where "wC = setCompletionTime clk wT"
  define cF where "cF = conditionAt clk (clockReads wC) MXJobFailed mxJobFailedReason
      (''MXJob '' @ Name (mxjob w) @ '' is failed.'')"
  have name: "Name (mxjob wT) = Name (mxjob w)"
    by (simp add: wT_def w1_def)
  have main: "updateStatusSingle KeyFunc clk w rtype replicas restart sc
      = failureBranch clk wT f restart"
    using updateStatusSingle_main [where KeyFunc = KeyFunc and w = w and clk = clk
      and replicas = replicas and restart = restart and sc = sc, OF assms(1,2)]
    by (simp add: wT_def w1_def e_def r_def f_def)
  from assms(3) have failed: "0 <s f" by (simp add: f_def)
  have restarting: "updateStatusSingle KeyFunc clk w rtype replicas restart sc
      = updateMXJobConditions clk wT MXJobRestarting mxJobRestartingReason
          (''MXJob '' @ Name (mxjob w) @ '' is restarting.'')" if restart
    unfolding main using that failed name by (simp add: failureBranch_def)
  have failing: "updateStatusSingle KeyFunc clk w rtype replicas restart sc
      = updateMXJobConditions clk wC MXJobFailed mxJobFailedReason
          (''MXJob '' @ Name (mxjob w) @ '' is failed.'')" if "\<not> restart"
    unfolding main wC_def using that failed name by (simp add: failureBranch_def)
  have statusR: "statusOf (snd (updateStatusSingle KeyFunc clk w rtype replicas restart sc))
      = setCondition (statusOf wT) cR" if restart
    unfolding restarting [OF that] cR_def by simp
  have statusF: "statusOf (snd (updateStatusSingle KeyFunc clk w rtype replicas restart sc))
      = setCondition (statusOf wC) cF" if "\<not> restart"
    unfolding failing [OF that] cF_def by simp
  have frameC: "Conditions (statusOf wC) = Conditions (statusOf wT)"
    by (simp add: wC_def)
  have timeR: "CompletionTime (statusOf (snd (updateStatusSingle KeyFunc clk w rtype replicas restart sc)))
      = CompletionTime (statusOf wT)" if restart
    unfolding statusR [OF that] by simp
  have timeF: "CompletionTime (statusOf (snd (updateStatusSingle KeyFunc clk w rtype replicas restart sc)))
        \<noteq> None
      \<and> (CompletionTime (statusOf wT) \<noteq> None \<longrightarrow>
           CompletionTime (statusOf (snd (updateStatusSingle KeyFunc clk w rtype replicas restart sc)))
             = CompletionTime (statusOf wT))" if "\<not> restart"
    unfolding statusF [OF that] by (auto simp: wC_def)
  have over: "(restart \<longrightarrow>
         (\<forall>c\<in>set (Conditions (statusOf (snd (updateStatusSingle KeyFunc clk w rtype replicas restart sc)))).
            Type c \<noteq> MXJobRunning)
       \<and> Type (last (Conditions (statusOf (snd (updateStatusSingle KeyFunc clk w rtype replicas restart sc)))))
           = MXJobRestarting
       \<and> Status (last (Conditions (statusOf (snd (updateStatusSingle KeyFunc clk w rtype replicas restart sc)))))
           = ConditionTrue)
      \<and> (\<not> restart \<longrightarrow>
         (\<forall>c\<in>set (Conditions (statusOf (snd (updateStatusSingle KeyFunc clk w rtype replicas restart sc)))).
            Type c = MXJobRunning \<longrightarrow> Status c = ConditionFalse)
       \<and> Type (last (Conditions (statusOf (snd (updateStatusSingle KeyFunc clk w rtype replicas restart sc)))))
           = MXJobFailed
       \<and> Status (last (Conditions (statusOf (snd (updateStatusSingle KeyFunc clk w rtype replicas restart sc)))))
           = ConditionTrue
       \<and> isFailed (statusOf (snd (updateStatusSingle KeyFunc clk w rtype replicas restart sc))))"
    if pre: "\<not> isCompleted (statusOf w)" "derivesRunning (mxjob w) rtype e r sc"
      "\<not> derivesSucceeded (mxjob w) rtype e sc"
  proof -
    from pre have "\<not> isCompleted (statusOf w1)" "derivesRunning (mxjob w1) rtype e r sc"
      "\<not> derivesSucceeded (mxjob w1) rtype e sc"
      by (simp_all add: w1_def)
    from topologyBranch_running_outcome [OF this, of clk]
    have openT: "\<not> isCompleted (statusOf wT)" and lastT: "lastIs (statusOf wT) mxJobRunningReason"
      by (simp_all add: wT_def)
    from openT lastT frameC have openC: "\<not> isCompleted (statusOf wC)"
      and lastC: "lastIs (statusOf wC) mxJobRunningReason"
      using isCompleted_Conditions lastIs_Conditions by blast+
    have "restart \<longrightarrow> ?thesis"
      using setCondition_restarting_over [OF openT lastT, of cR] statusR
      by (simp add: cR_def)
    moreover have "\<not> restart \<longrightarrow> ?thesis"
      using setCondition_failed_over [OF openC lastC, of cF] statusF
      by (simp add: cF_def)
    ultimately show ?thesis by blast
  qed
  have locked: "Conditions (statusOf (snd (updateStatusSingle KeyFunc clk w rtype replicas restart sc)))
      = Conditions (statusOf wT)" if "isCompleted (statusOf wT)"
    unfolding main using that by (rule failureBranch_completed)
  have kept: "isCompleted (statusOf wT)
      \<and> Conditions (statusOf (snd (updateStatusSingle KeyFunc clk w rtype replicas restart sc)))
          = Conditions (statusOf wT)"
    if "derivesSucceeded (mxjob w) rtype e sc" "\<not> lastIs (statusOf w) mxJobSucceededReason"
  proof -
    from that have "derivesSucceeded (mxjob w1) rtype e sc"
      "\<not> lastIs (statusOf w1) mxJobSucceededReason"
      by (simp_all add: w1_def)
    with topologyBranch_succeeded_outcome [of w1 rtype e sc clk r]
    have "isCompleted (statusOf wT)" by (auto simp: wT_def)
    with locked show ?thesis by blast
  qed
  from restarting timeR failing timeF over locked kept show ?thesis
    unfolding afterTopology_def wC_def wT_def w1_def e_def r_def f_def by blast
qed

text \<open>
  The claim as stated fails for Succeeded. A worker group with one active, one succeeded
  and one failed pod, \<open>schedulerCompleted\<close> true and no restart, on an empty history: the
  topology branch inserts Succeeded, and the Failed condition of the failure branch is
  then refused by \<open>setCondition\<close>. The job ends succeeded, not failed.
\<close>

theorem C6_failure_branch_counterexample:
  "0 <s (scast (Failed \<lparr>Active = 1, Succeeded = 1, Failed = 1\<rparr>) :: 64 word)
   \<and> Conditions (statusOf (snd (updateStatusSingle exampleKeyFunc exampleClock
        (withCounts (exampleWorld (exampleJob workerSpec (exampleStatus []))) MXReplicaTypeWorker 1 1 1)
        MXReplicaTypeWorker 3 False True)))
     = [\<lparr>Type = MXJobSucceeded, Status = ConditionTrue, Reason = ''MXJobSucceeded'',
         Message = ''MXJob mxjob is successfully completed.'',
         LastUpdateTime = 101, LastTransitionTime = 102\<rparr>]
   \<and> \<not> isFailed (statusOf (snd (updateStatusSingle exampleKeyFunc exampleClock
        (withCounts (exampleWorld (exampleJob workerSpec (exampleStatus []))) MXReplicaTypeWorker 1 1 1)
        MXReplicaTypeWorker 3 False True)))"
  by (simp add: example_defs code_defs)

text \<open>
  A worker group with two active pods and a failed one, with restart, on an empty history:
  Running is applied and then replaced by Restarting.
\<close>

theorem C6_failure_branch_witness:
  "0 <s (scast (Failed \<lparr>Active = 2, Succeeded = 0, Failed = 1\<rparr>) :: 64 word)
   \<and> Type (last (Conditions (statusOf (snd (updateStatusSingle exampleKeyFunc exampleClock
        (withCounts (exampleWorld (exampleJob workerSpec (exampleStatus []))) MXReplicaTypeWorker 2 0 1)
        MXReplicaTypeWorker 3 True False))))) = MXJobRestarting
   \<and> Status (last (Conditions (statusOf (snd (updateStatusSingle exampleKeyFunc exampleClock
        (withCounts (exampleWorld (exampleJob workerSpec (exampleStatus []))) MXReplicaTypeWorker 2 0 1)
        MXReplicaTypeWorker 3 True False))))) = ConditionTrue"
proof -
  let ?w = "withCounts (exampleWorld (exampleJob workerSpec (exampleStatus []))) MXReplicaTypeWorker 2 0 1"
  let ?rs = "\<lparr>Active = 2, Succeeded = 0, Failed = 1\<rparr>"
  have key: "exampleKeyFunc (mxjob ?w) = Inr ''default/mxjob''"
    by (simp add: example_defs)
  have counters: "replicaStatus ?w MXReplicaTypeWorker = Some ?rs"
    by (simp add: example_defs)
  have failed: "0 <s (scast (Failed ?rs) :: 64 word)"
    by (simp add: word_sless_alt)
  have "open": "\<not> isCompleted (statusOf ?w)"
    by (simp add: example_defs isCompleted_def isFailed_def isSucceeded_def hasCondition_def)
  have running: "derivesRunning (mxjob ?w) MXReplicaTypeWorker (3 - scast (Succeeded ?rs))
      (scast (Active ?rs)) False"
    by (simp add: example_defs derivesRunning_def ContainSchedulerSpec_def word_sless_alt)
  have not_succeeded: "\<not> derivesSucceeded (mxjob ?w) MXReplicaTypeWorker (3 - scast (Succeeded ?rs)) False"
    by (simp add: example_defs derivesSucceeded_def ContainSchedulerSpec_def)
  from C6_failure_branch [where KeyFunc = exampleKeyFunc and w = ?w and clk = exampleClock
      and replicas = 3 and restart = True and sc = False, OF key counters failed]
    "open" running not_succeeded failed
  show ?thesis by blast
qed

subsection \<open>Repeating a call\<close>

text \<open>When a branch leaves the job as it is.\<close>

lemma updateMXJobConditions_nil: "fst (updateMXJobConditions clk w t r m) = None"
  by simp

lemma updateMXJobConditions_noop:
  assumes "isCompleted (statusOf v) \<or> lastIs (statusOf v) reason"
  shows "mxjob (snd (updateMXJobConditions clk v t reason m)) = mxjob v"
proof -
  have "setCondition (statusOf v) (conditionAt clk (clockReads v) t reason m) = statusOf v"
    using assms setCondition_completed setCondition_lastIs [of "statusOf v" "conditionAt clk (clockReads v) t reason m"]
    by auto
  then show ?thesis by simp
qed

lemma setCompletionTime_noop:
  "CompletionTime (statusOf v) \<noteq> None \<Longrightarrow> setCompletionTime clk v = v"
  by (auto simp: setCompletionTime_def)

lemma setStartTime_noop:
  "StartTime (statusOf v) \<noteq> None \<Longrightarrow> setStartTime clk v key = v"
  by (auto simp: setStartTime_def)

lemma topologyBranch_noop:
  assumes "isCompleted (statusOf v)
      \<or> \<not> derivesRunning (mxjob v) rtype e r sc \<and> \<not> derivesSucceeded (mxjob v) rtype e sc
      \<or> \<not> derivesSucceeded (mxjob v) rtype e sc \<and> lastIs (statusOf v) mxJobRunningReason
      \<or> \<not> derivesRunning (mxjob v) rtype e r sc \<and> lastIs (statusOf v) mxJobSucceededReason"
    and "derivesSucceeded (mxjob v) rtype e sc \<longrightarrow> CompletionTime (statusOf v) \<noteq> None"
  shows "mxjob (snd (topologyBranch clk v rtype e r sc)) = mxjob v"
proof (cases "derivesSucceeded (mxjob v) rtype e sc")
  case False
  show ?thesis
  proof (cases "derivesRunning (mxjob v) rtype e r sc")
    case False
    with \<open>\<not> derivesSucceeded (mxjob v) rtype e sc\<close> show ?thesis
      by (simp add: topologyBranch_idle)
  next
    case True
    with False have eq: "topologyBranch clk v rtype e r sc
        = updateMXJobConditions clk v MXJobRunning mxJobRunningReason
            (''MXJob '' @ Name (mxjob v) @ '' is running.'')"
      by (auto simp: topologyBranch_def andThen_def derivesRunning_def derivesSucceeded_def
          split: prod.splits option.splits if_splits)
    from assms(1) True have "isCompleted (statusOf v) \<or> lastIs (statusOf v) mxJobRunningReason"
      by blast
    then show ?thesis unfolding eq by (rule updateMXJobConditions_noop)
  qed
next
  case True
  with assms(2) have time: "setCompletionTime clk v = v"
    by (simp add: setCompletionTime_noop)
  show ?thesis
  proof (cases "derivesRunning (mxjob v) rtype e r sc")
    case False
    with True have eq: "topologyBranch clk v rtype e r sc
        = updateMXJobConditions clk v MXJobSucceeded mxJobSucceededReason
            (''MXJob '' @ Name (mxjob v) @ '' is successfully completed.'')"
      using time
      by (auto simp: topologyBranch_def andThen_def derivesRunning_def derivesSucceeded_def
          split: if_splits)
    from assms(1) True False
    have "isCompleted (statusOf v) \<or> lastIs (statusOf v) mxJobSucceededReason"
      by blast
    then show ?thesis unfolding eq by (rule updateMXJobConditions_noop)
  next
    case running: True
    with assms(1) True have locked: "isCompleted (statusOf v)" by blast
    let ?v1 = "snd (updateMXJobConditions clk v MXJobRunning mxJobRunningReason
            (''MXJob '' @ Name (mxjob v) @ '' is running.''))"
    have first: "mxjob ?v1 = mxjob v"
      using locked by (intro updateMXJobConditions_noop) simp
    then have time1: "setCompletionTime clk ?v1 = ?v1"
      using assms(2) True by (simp add: setCompletionTime_noop)
    from running True have eq: "topologyBranch clk v rtype e r sc
        = updateMXJobConditions clk ?v1 MXJobSucceeded mxJobSucceededReason
            (''MXJob '' @ Name (mxjob ?v1) @ '' is successfully completed.'')"
      using time1
      by (auto simp: topologyBranch_def andThen_None [OF updateMXJobConditions_nil]
          derivesRunning_def derivesSucceeded_def
          simp del: updateMXJobConditions_proj split: if_splits)
    have "mxjob (snd (topologyBranch clk v rtype e r sc)) = mxjob ?v1"
      unfolding eq using locked first by (intro updateMXJobConditions_noop) simp
    with first show ?thesis by simp
  qed
qed

lemma failureBranch_noop:
  assumes "isCompleted (statusOf v) \<or> \<not> 0 <s f
      \<or> restart \<and> lastIs (statusOf v) mxJobRestartingReason
      \<or> \<not> restart \<and> lastIs (statusOf v) mxJobFailedReason"
    and "0 <s f \<and> \<not> restart \<longrightarrow> CompletionTime (statusOf v) \<noteq> None"
  shows "mxjob (snd (failureBranch clk v f restart)) = mxjob v"
proof (cases "0 <s f")
  case False
  then show ?thesis by (simp add: failureBranch_idle)
next
  case True
  show ?thesis
  proof (cases restart)
    case True
    with \<open>0 <s f\<close> have eq: "failureBranch clk v f restart
        = updateMXJobConditions clk v MXJobRestarting mxJobRestartingReason
            (''MXJob '' @ Name (mxjob v) @ '' is restarting.'')"
      by (simp add: failureBranch_def)
    from assms(1) True \<open>0 <s f\<close>
    have "isCompleted (statusOf v) \<or> lastIs (statusOf v) mxJobRestartingReason" by blast
    then show ?thesis unfolding eq by (rule updateMXJobConditions_noop)
  next
    case False
    with \<open>0 <s f\<close> assms(2) have "setCompletionTime clk v = v"
      by (simp add: setCompletionTime_noop)
    with False \<open>0 <s f\<close> have eq: "failureBranch clk v f restart
        = updateMXJobConditions clk v MXJobFailed mxJobFailedReason
            (''MXJob '' @ Name (mxjob v) @ '' is failed.'')"
      by (simp add: failureBranch_def)
    from assms(1) False \<open>0 <s f\<close>
    have "isCompleted (statusOf v) \<or> lastIs (statusOf v) mxJobFailedReason" by blast
    then show ?thesis unfolding eq by (rule updateMXJobConditions_noop)
  qed
qed

text \<open>What a branch has settled when it returns.\<close>

lemma topologyBranch_settles:
  "isCompleted (statusOf (snd (topologyBranch clk w rtype e r sc)))
   \<or> \<not> derivesRunning (mxjob w) rtype e r sc \<and> \<not> derivesSucceeded (mxjob w) rtype e sc
   \<or> \<not> derivesSucceeded (mxjob w) rtype e sc
       \<and> lastIs (statusOf (snd (topologyBranch clk w rtype e r sc))) mxJobRunningReason
   \<or> \<not> derivesRunning (mxjob w) rtype e r sc
       \<and> lastIs (statusOf (snd (topologyBranch clk w rtype e r sc))) mxJobSucceededReason"
proof -
  have settle: "isCompleted (setCondition s (conditionAt clk n t rsn m))
      \<or> lastIs (setCondition s (conditionAt clk n t rsn m)) rsn" for s n t rsn m
    using setCondition_settles [of "conditionAt clk n t rsn m" s] by simp
  have both: "isCompleted (setCondition s' (conditionAt clk n' MXJobSucceeded mxJobSucceededReason m'))"
    if "Conditions s' = Conditions (setCondition s (conditionAt clk n MXJobRunning mxJobRunningReason m))"
    for s s' n n' m m'
    using that by (rule setCondition_then_terminal) simp_all
  show ?thesis
    unfolding topologyBranch_def derivesRunning_def derivesSucceeded_def
    by (simp add: andThen_None settle both)
qed

lemma failureBranch_settles:
  "isCompleted (statusOf (snd (failureBranch clk w f restart))) \<or> \<not> 0 <s f
   \<or> restart \<and> lastIs (statusOf (snd (failureBranch clk w f restart))) mxJobRestartingReason
   \<or> \<not> restart \<and> lastIs (statusOf (snd (failureBranch clk w f restart))) mxJobFailedReason"
proof -
  have settle: "isCompleted (setCondition s (conditionAt clk n t rsn m))
      \<or> lastIs (setCondition s (conditionAt clk n t rsn m)) rsn" for s n t rsn m
    using setCondition_settles [of "conditionAt clk n t rsn m" s] by simp
  show ?thesis
    unfolding failureBranch_def
    by (simp add: settle)
qed

lemma topologyBranch_sets_time:
  "derivesSucceeded (mxjob w) rtype e sc \<Longrightarrow>
     CompletionTime (statusOf (snd (topologyBranch clk w rtype e r sc))) \<noteq> None"
  by (auto simp: topologyBranch_def andThen_None derivesSucceeded_def split: if_splits)

lemma failureBranch_sets_time:
  "0 <s f \<Longrightarrow> \<not> restart \<Longrightarrow>
     CompletionTime (statusOf (snd (failureBranch clk w f restart))) \<noteq> None"
  by (auto simp: failureBranch_def)

text \<open>
  The two branches run again on the world they have produced: nothing changes in the job,
  provided the first run ended completed or did not apply Restarting after a condition
  of the topology branch.
\<close>

lemma branches_idempotent:
  assumes wT: "wT = snd (topologyBranch clk w0 rtype e r sc)"
    and wF: "wF = snd (failureBranch clk wT f restart)"
    and H: "isCompleted (statusOf wF) \<or> \<not> restart \<or> \<not> 0 <s f
      \<or> \<not> derivesRunning (mxjob w0) rtype e r sc \<and> \<not> derivesSucceeded (mxjob w0) rtype e sc"
  shows "mxjob (snd (failureBranch clk (snd (topologyBranch clk wF rtype e r sc)) f restart))
           = mxjob wF"
proof -
  let ?dR = "derivesRunning (mxjob w0) rtype e r sc"
  let ?dS = "derivesSucceeded (mxjob w0) rtype e sc"
  have jobT: "mxjob wT = (mxjob w0)\<lparr>JobStatus := statusOf wT\<rparr>"
    unfolding wT by (rule topologyBranch_only_status)
  have jobF: "mxjob wF = (mxjob wT)\<lparr>JobStatus := statusOf wF\<rparr>"
    unfolding wF by (rule failureBranch_only_status)
  have dR: "derivesRunning (mxjob wF) rtype e r sc = ?dR"
    and dS: "derivesSucceeded (mxjob wF) rtype e sc = ?dS"
    by (subst jobF, subst jobT, simp)+
  have postT: "isCompleted (statusOf wT) \<or> \<not> ?dR \<and> \<not> ?dS
      \<or> \<not> ?dS \<and> lastIs (statusOf wT) mxJobRunningReason
      \<or> \<not> ?dR \<and> lastIs (statusOf wT) mxJobSucceededReason"
    unfolding wT by (rule topologyBranch_settles)
  have postF: "isCompleted (statusOf wF) \<or> \<not> 0 <s f
      \<or> restart \<and> lastIs (statusOf wF) mxJobRestartingReason
      \<or> \<not> restart \<and> lastIs (statusOf wF) mxJobFailedReason"
    unfolding wF by (rule failureBranch_settles)
  have timeT: "CompletionTime (statusOf wF) \<noteq> None" if ?dS
  proof -
    from that have "CompletionTime (statusOf wT) \<noteq> None"
      unfolding wT by (rule topologyBranch_sets_time)
    then show ?thesis
      unfolding wF using failureBranch_CompletionTime by metis
  qed
  have timeF: "CompletionTime (statusOf wF) \<noteq> None" if "0 <s f" "\<not> restart"
    unfolding wF using that by (rule failureBranch_sets_time)
  have preT: "isCompleted (statusOf wF) \<or> \<not> ?dR \<and> \<not> ?dS
      \<or> \<not> ?dS \<and> lastIs (statusOf wF) mxJobRunningReason
      \<or> \<not> ?dR \<and> lastIs (statusOf wF) mxJobSucceededReason"
  proof (cases "isCompleted (statusOf wF)")
    case True
    then show ?thesis ..
  next
    case False
    then have openT: "\<not> isCompleted (statusOf wT)"
      unfolding wF using failureBranch_keeps_completed by blast
    show ?thesis
    proof (cases "0 <s f")
      case False
      then have "wF = wT" unfolding wF by (simp add: failureBranch_idle)
      with postT show ?thesis by simp
    next
      case True
      show ?thesis
      proof (cases restart)
        case True
        with H \<open>0 <s f\<close> \<open>\<not> isCompleted (statusOf wF)\<close> show ?thesis by blast
      next
        case False
        from failureBranch_failed_outcome [OF \<open>0 <s f\<close> False, of clk wT]
          \<open>\<not> isCompleted (statusOf wF)\<close>
        have "lastIs (statusOf wT) mxJobFailedReason"
          unfolding wF by blast
        with postT openT have "\<not> ?dR \<and> \<not> ?dS"
          using lastIs_unique reasons_distinct by blast
        then show ?thesis by blast
      qed
    qed
  qed
  define v where "v = snd (topologyBranch clk wF rtype e r sc)"
  have same: "mxjob v = mxjob wF"
    unfolding v_def
    by (rule topologyBranch_noop) (use preT timeT dR dS in auto)
  have "mxjob (snd (failureBranch clk v f restart)) = mxjob v"
    by (rule failureBranch_noop) (use postF timeF same in auto)
  with same show ?thesis
    unfolding v_def by simp
qed

text \<open>
  C2, as amended. Calling \<open>updateStatusSingle\<close> twice in succession with the same arguments
  leaves the job exactly as calling it once does (the same conditions with the same
  timestamps, the same start and completion time, the same counters), provided the first call leaves the
  status completed, or does not apply Restarting (no restart, or no failed pod), or applies
  Restarting alone (the topology branch derives neither Running nor Succeeded). The
  second call runs at a later state of the clock.
\<close>

theorem C2_idempotence:
  assumes "\<forall>rs. replicaStatus w rtype = Some rs \<longrightarrow>
      isCompleted (statusOf (snd (updateStatusSingle KeyFunc clk w rtype replicas restart sc)))
      \<or> \<not> restart \<or> \<not> 0 <s (scast (Failed rs) :: 64 word)
      \<or> \<not> derivesRunning (mxjob w) rtype (replicas - scast (Succeeded rs)) (scast (Active rs)) sc
        \<and> \<not> derivesSucceeded (mxjob w) rtype (replicas - scast (Succeeded rs)) sc"
  shows "mxjob (snd (updateStatusSingle KeyFunc clk
             (snd (updateStatusSingle KeyFunc clk w rtype replicas restart sc))
             rtype replicas restart sc))
           = mxjob (snd (updateStatusSingle KeyFunc clk w rtype replicas restart sc))
       \<and> heap (snd (updateStatusSingle KeyFunc clk
             (snd (updateStatusSingle KeyFunc clk w rtype replicas restart sc))
             rtype replicas restart sc))
           = heap (snd (updateStatusSingle KeyFunc clk w rtype replicas restart sc))"
proof -
  have job: "mxjob (snd (updateStatusSingle KeyFunc clk
             (snd (updateStatusSingle KeyFunc clk w rtype replicas restart sc))
             rtype replicas restart sc))
           = mxjob (snd (updateStatusSingle KeyFunc clk w rtype replicas restart sc))"
  proof (cases rule: updateStatusSingle_cases
    [where KeyFunc = KeyFunc and w = w and rtype = rtype and clk = clk
       and replicas = replicas and restart = restart and sc = sc])
  case (KeyError err)
  then show ?thesis by simp
next
  case (Panic key)
  then show ?thesis by simp
next
  case (Main key rs)
  define e :: "64 word" where "e = replicas - scast (Succeeded rs)"
  define r :: "64 word" where "r = scast (Active rs)"
  define f :: "64 word" where "f = scast (Failed rs)"
  define w0 where "w0 = setStartTime clk w key"
  define wT where "wT = snd (topologyBranch clk w0 rtype e r sc)"
  define wF where "wF = snd (failureBranch clk wT f restart)"
  have first: "snd (updateStatusSingle KeyFunc clk w rtype replicas restart sc) = wF"
    using Main(3) by (simp add: wF_def wT_def w0_def e_def r_def f_def)
  have started: "StartTime (statusOf wF) \<noteq> None"
    by (simp add: wF_def wT_def w0_def)
  have counters: "replicaStatus wF rtype = Some rs"
    using Main(2) by (simp add: wF_def wT_def w0_def)
  from assms Main(2) have H: "isCompleted (statusOf wF) \<or> \<not> restart \<or> \<not> 0 <s f
      \<or> \<not> derivesRunning (mxjob w0) rtype e r sc \<and> \<not> derivesSucceeded (mxjob w0) rtype e sc"
    unfolding first by (simp add: e_def r_def f_def w0_def)
  show ?thesis
    unfolding first
  proof (cases rule: updateStatusSingle_cases
      [where KeyFunc = KeyFunc and w = wF and rtype = rtype and clk = clk
         and replicas = replicas and restart = restart and sc = sc])
    case (KeyError err)
    then show "mxjob (snd (updateStatusSingle KeyFunc clk wF rtype replicas restart sc)) = mxjob wF"
      by simp
  next
    case (Panic key')
    then show "mxjob (snd (updateStatusSingle KeyFunc clk wF rtype replicas restart sc)) = mxjob wF"
      by simp
  next
    case second: (Main key' rs')
    from second(2) counters have "rs' = rs" by simp
    with second(3) started have "updateStatusSingle KeyFunc clk wF rtype replicas restart sc
        = failureBranch clk (snd (topologyBranch clk wF rtype e r sc)) f restart"
      by (simp add: setStartTime_noop e_def r_def f_def)
    then show "mxjob (snd (updateStatusSingle KeyFunc clk wF rtype replicas restart sc)) = mxjob wF"
      using branches_idempotent [OF wT_def wF_def H] by simp
  qed
qed
  have counters: "heap (snd (updateStatusSingle KeyFunc clk
             (snd (updateStatusSingle KeyFunc clk w rtype replicas restart sc))
             rtype replicas restart sc))
           = heap (snd (updateStatusSingle KeyFunc clk w rtype replicas restart sc))"
    by (simp add: updateStatusSingle_MXReplicaStatuses)
  from job counters show ?thesis
    by simp
qed

text \<open>
  The claim as stated fails when a call applies Running and then Restarting. A worker
  group with two active pods and a failed one, with restart, on an empty history and with
  a clock that advances: the first call leaves a Restarting condition updated at 102, the
  second call inserts Running and Restarting again and leaves it updated at 106.
\<close>

theorem C2_idempotence_counterexample:
  "Conditions (statusOf (snd (updateStatusSingle exampleKeyFunc exampleClock
        (withCounts (exampleWorld (exampleJob workerSpec (exampleStatus []))) MXReplicaTypeWorker 2 0 1)
        MXReplicaTypeWorker 3 True False)))
     = [\<lparr>Type = MXJobRestarting, Status = ConditionTrue, Reason = ''MXJobRestarting'',
         Message = ''MXJob mxjob is restarting.'',
         LastUpdateTime = 102, LastTransitionTime = 101\<rparr>]
   \<and> Conditions (statusOf (snd (updateStatusSingle exampleKeyFunc exampleClock
        (snd (updateStatusSingle exampleKeyFunc exampleClock
           (withCounts (exampleWorld (exampleJob workerSpec (exampleStatus []))) MXReplicaTypeWorker 2 0 1)
           MXReplicaTypeWorker 3 True False))
        MXReplicaTypeWorker 3 True False)))
     = [\<lparr>Type = MXJobRestarting, Status = ConditionTrue, Reason = ''MXJobRestarting'',
         Message = ''MXJob mxjob is restarting.'',
         LastUpdateTime = 106, LastTransitionTime = 101\<rparr>]"
  by (simp add: example_defs code_defs)

text \<open>A worker group with two active pods, a succeeded one and none failed: Running, once.\<close>

theorem C2_idempotence_witness:
  "mxjob (snd (updateStatusSingle exampleKeyFunc exampleClock
        (snd (updateStatusSingle exampleKeyFunc exampleClock
           (withCounts (exampleWorld (exampleJob workerSpec (exampleStatus []))) MXReplicaTypeWorker 2 1 0)
           MXReplicaTypeWorker 3 True False))
        MXReplicaTypeWorker 3 True False))
   = mxjob (snd (updateStatusSingle exampleKeyFunc exampleClock
        (withCounts (exampleWorld (exampleJob workerSpec (exampleStatus []))) MXReplicaTypeWorker 2 1 0)
        MXReplicaTypeWorker 3 True False))
   \<and> heap (snd (updateStatusSingle exampleKeyFunc exampleClock
        (snd (updateStatusSingle exampleKeyFunc exampleClock
           (withCounts (exampleWorld (exampleJob workerSpec (exampleStatus []))) MXReplicaTypeWorker 2 1 0)
           MXReplicaTypeWorker 3 True False))
        MXReplicaTypeWorker 3 True False))
   = heap (snd (updateStatusSingle exampleKeyFunc exampleClock
        (withCounts (exampleWorld (exampleJob workerSpec (exampleStatus []))) MXReplicaTypeWorker 2 1 0)
        MXReplicaTypeWorker 3 True False))"
proof -
  have "\<not> 0 <s (scast (Failed rs) :: 64 word)"
    if "replicaStatus (withCounts (exampleWorld (exampleJob workerSpec (exampleStatus []))) MXReplicaTypeWorker 2 1 0) MXReplicaTypeWorker = Some rs"
    for rs
    using that by (auto simp: example_defs word_sless_alt)
  then show ?thesis
    by (intro C2_idempotence) blast
qed

subsection \<open>The statuses that the code produces\<close>

lemma topologyBranch_not_completed:
  assumes "\<not> isCompleted (statusOf w)" and "\<not> derivesSucceeded (mxjob w) rtype e sc"
  shows "\<not> isCompleted (statusOf (snd (topologyBranch clk w rtype e r sc)))"
proof (cases "derivesRunning (mxjob w) rtype e r sc")
  case True
  with assms show ?thesis using topologyBranch_running_outcome by blast
next
  case False
  with assms show ?thesis by (simp add: topologyBranch_idle)
qed

lemma failureBranch_not_completed:
  assumes "\<not> isCompleted (statusOf w)" and "restart \<or> \<not> 0 <s f"
  shows "\<not> isCompleted (statusOf (snd (failureBranch clk w f restart)))"
proof (cases "0 <s f")
  case False
  with assms(1) show ?thesis by (simp add: failureBranch_idle)
next
  case True
  with assms(2) have "statusOf (snd (failureBranch clk w f restart))
      = setCondition (statusOf w) (conditionAt clk (clockReads w) MXJobRestarting
          mxJobRestartingReason (''MXJob '' @ Name (mxjob w) @ '' is restarting.''))"
    by (simp add: failureBranch_def)
  moreover have "\<not> isCompleted (setCondition (statusOf w)
      (conditionAt clk (clockReads w) MXJobRestarting
         mxJobRestartingReason (''MXJob '' @ Name (mxjob w) @ '' is restarting.'')))"
    using assms(1) by (rule setCondition_not_completed) simp_all
  ultimately show ?thesis by simp
qed

text \<open>
  The two properties of a status that the statements above rely on hold of a job without
  conditions, and each function of the file keeps them: \<open>updateStatusSingle\<close> assigns the
  completion time before it applies a terminal condition and builds each condition with
  the reason of its type, and the aggregator does not touch the conditions or the
  timestamps.
\<close>

lemma no_conditions_invariants:
  assumes "Conditions s = []"
  shows "completionRecorded s" and "reasonsAgree s"
  using assms
  by (simp_all add: completionRecorded_def reasonsAgree_def isCompleted_def isFailed_def
      isSucceeded_def hasCondition_def)

lemma updateStatusSingle_completionRecorded:
  assumes "completionRecorded (statusOf w)"
  shows "completionRecorded
           (statusOf (snd (updateStatusSingle KeyFunc clk w rtype replicas restart sc)))"
proof (cases rule: updateStatusSingle_cases
    [where KeyFunc = KeyFunc and w = w and rtype = rtype and clk = clk
       and replicas = replicas and restart = restart and sc = sc])
  case (KeyError err)
  with assms show ?thesis by simp
next
  case (Panic key)
  with assms show ?thesis by simp
next
  case (Main key rs)
  define e :: "64 word" where "e = replicas - scast (Succeeded rs)"
  define r :: "64 word" where "r = scast (Active rs)"
  define f :: "64 word" where "f = scast (Failed rs)"
  define w0 where "w0 = setStartTime clk w key"
  define wT where "wT = snd (topologyBranch clk w0 rtype e r sc)"
  define wF where "wF = snd (failureBranch clk wT f restart)"
  have result: "snd (updateStatusSingle KeyFunc clk w rtype replicas restart sc) = wF"
    using Main(3) by (simp add: wF_def wT_def w0_def e_def r_def f_def)
  have c0: "isCompleted (statusOf w0) = isCompleted (statusOf w)"
    and t0: "CompletionTime (statusOf w0) = CompletionTime (statusOf w)"
    by (auto simp: w0_def)
  have "CompletionTime (statusOf wF) \<noteq> None" if completed: "isCompleted (statusOf wF)"
  proof (cases "derivesSucceeded (mxjob w0) rtype e sc")
    case True
    then have "CompletionTime (statusOf wT) \<noteq> None"
      unfolding wT_def by (rule topologyBranch_sets_time)
    then show ?thesis
      unfolding wF_def using failureBranch_CompletionTime by metis
  next
    case False
    show ?thesis
    proof (cases "0 <s f \<and> \<not> restart")
      case True
      then show ?thesis
        unfolding wF_def using failureBranch_sets_time by blast
    next
      case idle: False
      have "isCompleted (statusOf w)"
      proof (rule ccontr)
        assume "\<not> isCompleted (statusOf w)"
        with c0 have "\<not> isCompleted (statusOf w0)" by simp
        from topologyBranch_not_completed [OF this False]
        have "\<not> isCompleted (statusOf wT)" by (simp add: wT_def)
        from failureBranch_not_completed [OF this] idle
        have "\<not> isCompleted (statusOf wF)" unfolding wF_def by blast
        with completed show False by simp
      qed
      with assms t0 have "CompletionTime (statusOf w0) \<noteq> None"
        by (simp add: completionRecorded_def)
      then have "CompletionTime (statusOf wT) \<noteq> None"
        unfolding wT_def using topologyBranch_CompletionTime by metis
      then show ?thesis
        unfolding wF_def using failureBranch_CompletionTime by metis
    qed
  qed
  then show ?thesis unfolding result completionRecorded_def by blast
qed

lemma setCondition_reasonsAgree:
  assumes agree: "reasonsAgree s" and reason: "Reason c = reasonOf (Type c)"
  shows "reasonsAgree (setCondition s c)"
proof (cases "setCondition s c = s")
  case True
  with agree show ?thesis by simp
next
  case False
  from setCondition_inserted [OF False] obtain t where
    "Conditions (setCondition s c) = filterOutCondition (Conditions s) (Type c) @ [c\<lparr>LastTransitionTime := t\<rparr>]"
    by blast
  with agree reason show ?thesis
    by (auto simp: reasonsAgree_def filterOutCondition_map_filter)
qed

lemma reasonsAgree_update [simp]:
  "reasonsAgree (s\<lparr>StartTime := a\<rparr>) = reasonsAgree s"
  "reasonsAgree (s\<lparr>CompletionTime := b\<rparr>) = reasonsAgree s"
  by (simp_all add: reasonsAgree_def)

lemma updateStatusSingle_reasonsAgree:
  assumes "reasonsAgree (statusOf w)"
  shows "reasonsAgree (statusOf (snd (updateStatusSingle KeyFunc clk w rtype replicas restart sc)))"
proof (cases rule: updateStatusSingle_cases
    [where KeyFunc = KeyFunc and w = w and rtype = rtype and clk = clk
       and replicas = replicas and restart = restart and sc = sc])
  case (KeyError err)
  with assms show ?thesis by simp
next
  case (Panic key)
  with assms show ?thesis by simp
next
  case (Main key rs)
  have topology: "reasonsAgree (statusOf (snd (topologyBranch clk v rtype e r sc)))"
    if "reasonsAgree (statusOf v)" for v e r
    using that by (simp add: topologyBranch_def andThen_None setCondition_reasonsAgree)
  have failure: "reasonsAgree (statusOf (snd (failureBranch clk v f restart)))"
    if "reasonsAgree (statusOf v)" for v f
    using that by (simp add: failureBranch_def setCondition_reasonsAgree)
  from assms have "reasonsAgree (statusOf (setStartTime clk w key))"
    by simp
  then show ?thesis
    unfolding Main(3) by (intro failure topology)
qed

lemma aggregator_keeps_status:
  "Conditions (statusOf (initializeMXReplicaStatuses w rtype)) = Conditions (statusOf w)"
  "StartTime (statusOf (initializeMXReplicaStatuses w rtype)) = StartTime (statusOf w)"
  "CompletionTime (statusOf (initializeMXReplicaStatuses w rtype)) = CompletionTime (statusOf w)"
  "statusOf (snd (updateMXJobReplicaStatuses w rtype pod)) = statusOf w"
proof -
  show "statusOf (snd (updateMXJobReplicaStatuses w rtype pod)) = statusOf w"
    by (cases "Phase pod")
      (simp_all add: updateMXJobReplicaStatuses_def split: option.splits)
qed (simp_all add: initializeMXReplicaStatuses_def)

end
